theory Spec2Isabelle
  imports Complex_Main
begin

section \<open>Data model of BestWPlaneDataAccessor\<close>

text \<open>
  The adapter of \<^verbatim>\<open>askap/dataaccess/BestWPlaneDataAccessor.cc\<close> fits a plane
  \<open>w = A u + B v\<close> into the rotated uvw coordinates of a chunk and subtracts it from \<open>w\<close>.

  Number model: every C++ \<^verbatim>\<open>double\<close> is a \<^typ>\<open>real\<close>, and in the model of the
  control flow sums, products and quotients are exact and comparisons are those of the
  ordered field. What the fit computes in binary64 arithmetic is a separate set of
  definitions (suffix \<open>_double\<close>), in which every operation is rounded; infinities and NaN
  are not part of either model.
\<close>

text \<open>One row of the uvw vector: a \<^verbatim>\<open>RigidVector<Double, 3>\<close> holding \<open>(u, v, w)\<close>.\<close>

type_synonym uvw = "real \<times> real \<times> real"

text \<open>
  The exceptions of \<^verbatim>\<open>rotatedUVW\<close>, one constructor per throwing statement:
  \<^verbatim>\<open>getROAccessor\<close> without an associated accessor, the tangent point sanity check, the
  check for at least one spectral channel, \<^verbatim>\<open>ASKAPDEBUGASSERT(maxFreq > 0.)\<close> and the
  residual check. \<open>IndexOutOfRange\<close> stands for the read \<^verbatim>\<open>test_uvw[row]\<close> past the
  end of a vector shorter than the chunk (undefined behaviour in C++).
\<close>

datatype error =
    AccessorNotAssigned
  | TangentPointMismatch
  | ZeroSpectralChannels
  | AssertionFailed
  | ToleranceExceeded
  | IndexOutOfRange

text \<open>
  The wrapped accessor (\<^verbatim>\<open>IConstDataAccessor\<close>), reduced to the two methods the adapter
  calls. The tangent point type \<^verbatim>\<open>casacore::MDirection\<close> is the type parameter \<open>'d\<close>.
  The chunk does not change during a call: asking twice for the rows at the same tangent
  point gives the same rows, so \<^verbatim>\<open>rotatedUVW\<close> of the accessor is a function.
\<close>

record 'd IConstDataAccessor =
  acc_rotatedUVW :: "'d \<Rightarrow> uvw list"
  acc_frequency :: "real list"

text \<open>
  The two operations on tangent points that come from outside this file:
  \<^verbatim>\<open>MDirection::shiftLongitude(angle, true)\<close> and
  \<^verbatim>\<open>UVWMachineCache::compare(a, b, 1e-6)\<close>. They are parameters of the model.
\<close>

record 'd MDirectionOps =
  shiftLongitude :: "real \<Rightarrow> 'd \<Rightarrow> 'd"
  UVWMachineCache_compare :: "'d \<Rightarrow> 'd \<Rightarrow> bool"

text \<open>
  The object. \<open>roAccessor\<close> and \<open>changeMonitor\<close> are the members of the adapter base class
  behind \<^verbatim>\<open>getROAccessor()\<close> and \<^verbatim>\<open>changeMonitor()\<close>; the other fields are the data
  members of the class under their own names. A \<^verbatim>\<open>ChangeMonitor\<close> is a counter:
  \<^verbatim>\<open>notifyOfChanges\<close> increments it and \<^verbatim>\<open>==\<close> compares the counts.
\<close>

record 'd BestWPlaneDataAccessor =
  roAccessor :: "'d IConstDataAccessor option"
  changeMonitor :: nat
  itsCheckResidual :: bool
  itsWTolerance :: real
  itsCoeffA :: real
  itsCoeffB :: real
  itsUVWChangeMonitor :: nat
  itsPlaneChangeMonitor :: nat
  itsRotatedUVW :: "uvw list"
  itsLastTangentPoint :: 'd
  itsPredictWPlane :: bool
  itsPredictTimeInterval :: real

text \<open>The inline getters \<^verbatim>\<open>coeffA()\<close> and \<^verbatim>\<open>coeffB()\<close> of the class.\<close>

definition coeffA :: "'d BestWPlaneDataAccessor \<Rightarrow> real" where
  "coeffA s = itsCoeffA s"

definition coeffB :: "'d BestWPlaneDataAccessor \<Rightarrow> real" where
  "coeffB s = itsCoeffB s"

text \<open>\<^verbatim>\<open>itsPlaneChangeMonitor.notifyOfChanges()\<close>\<close>

definition notifyPlaneChange :: "'d BestWPlaneDataAccessor \<Rightarrow> 'd BestWPlaneDataAccessor" where
  "notifyPlaneChange s = s\<lparr>itsPlaneChangeMonitor := itsPlaneChangeMonitor s + 1\<rparr>"


text \<open>
  The constructor \<^verbatim>\<open>BestWPlaneDataAccessor(tolerance, checkResidual)\<close>: zero
  coefficients, reactive policy, \<^verbatim>\<open>itsUVWChangeMonitor\<close> initialised from
  \<^verbatim>\<open>changeMonitor()\<close>. The constructor leaves \<^verbatim>\<open>itsPredictTimeInterval\<close>
  uninitialised and default-constructs \<^verbatim>\<open>itsLastTangentPoint\<close>; both are arguments here.
\<close>

definition construct :: "real \<Rightarrow> bool \<Rightarrow> 'd \<Rightarrow> real \<Rightarrow> 'd BestWPlaneDataAccessor" where
  "construct tolerance checkResidual defaultDirection predictTimeInterval =
     \<lparr>roAccessor = None, changeMonitor = 0,
      itsCheckResidual = checkResidual, itsWTolerance = tolerance,
      itsCoeffA = 0, itsCoeffB = 0,
      itsUVWChangeMonitor = 0, itsPlaneChangeMonitor = 0,
      itsRotatedUVW = [], itsLastTangentPoint = defaultDirection,
      itsPredictWPlane = False, itsPredictTimeInterval = predictTimeInterval\<rparr>"

text \<open>
  Modelled from the spec: \<^verbatim>\<open>associate\<close> of the adapter base class, whose code is not
  in this file. It binds the accessor and signals a source change (the spec's
  \<open>sourceEpoch\<close> advances); the comment in \<^verbatim>\<open>rotatedUVW\<close> relies on exactly that
  ("change monitor should indicate a change for the first ever call to this method because
  an associate method should have been called by now").
\<close>

definition associate ::
  "'d IConstDataAccessor \<Rightarrow> 'd BestWPlaneDataAccessor \<Rightarrow> 'd BestWPlaneDataAccessor" where
  "associate acc s = s\<lparr>roAccessor := Some acc, changeMonitor := changeMonitor s + 1\<rparr>"


section \<open>Deviation from a plane\<close>

text \<open>
  The body of the deviation loop, which the source writes four times (in
  \<^verbatim>\<open>maxWDeviation\<close> with the committed coefficients and three times in
  \<^verbatim>\<open>updateAdvancedTimePlaneIfNecessary\<close> with the temporary ones):
  \<^verbatim>\<open>deviation = fabs(A*u + B*v - w); if (deviation > maxDeviation) maxDeviation = deviation;\<close>
\<close>

definition deviationStep :: "real \<Rightarrow> real \<Rightarrow> uvw \<Rightarrow> real \<Rightarrow> real" where
  "deviationStep A B currentUVW maxDeviation =
     (case currentUVW of (u, v, w) \<Rightarrow>
        if \<bar>A * u + B * v - w\<bar> > maxDeviation then \<bar>A * u + B * v - w\<bar> else maxDeviation)"

definition planeDeviation :: "real \<Rightarrow> real \<Rightarrow> uvw list \<Rightarrow> real" where
  "planeDeviation A B uvw = fold (deviationStep A B) uvw 0"

definition maxWDeviation :: "'d BestWPlaneDataAccessor \<Rightarrow> uvw list \<Rightarrow> real" where
  "maxWDeviation s uvw = planeDeviation (coeffA s) (coeffB s) uvw"


section \<open>The least-squares fit\<close>

text \<open>
  The five sums of the normal equations and the body of the loop that accumulates them,
  which the source writes three times. \<^verbatim>\<open>casacore::square(x)\<close> is \<open>x * x\<close>.
\<close>

record lsfSums =
  su2 :: real
  sv2 :: real
  suv :: real
  suw :: real
  svw :: real

definition lsfStep :: "uvw \<Rightarrow> lsfSums \<Rightarrow> lsfSums" where
  "lsfStep currentUVW acc =
     (case currentUVW of (u, v, w) \<Rightarrow>
        \<lparr>su2 = su2 acc + u * u,
         sv2 = sv2 acc + v * v,
         suv = suv acc + u * v,
         suw = suw acc + u * w,
         svw = svw acc + v * w\<rparr>)"

definition accumulateSums :: "uvw list \<Rightarrow> lsfSums" where
  "accumulateSums uvw = fold lsfStep uvw \<lparr>su2 = 0, sv2 = 0, suv = 0, suw = 0, svw = 0\<rparr>"

definition determinant :: "lsfSums \<Rightarrow> real" where
  "determinant m = su2 m * sv2 m - suv m * suv m"

text \<open>\<^verbatim>\<open>fabs(D) < 1e-7\<close>\<close>

definition almostSingular :: "real \<Rightarrow> bool" where
  "almostSingular D = (\<bar>D\<bar> < 1 / 10000000)"

text \<open>
  The two quotients of the fit, exact. What binary64 arithmetic makes of them is
  \<open>fitCoeffA_double\<close> and \<open>fitCoeffB_double\<close> below.
\<close>

definition fitCoeffA :: "lsfSums \<Rightarrow> real" where
  "fitCoeffA m = (sv2 m * suw m - suv m * svw m) / determinant m"

definition fitCoeffB :: "lsfSums \<Rightarrow> real" where
  "fitCoeffB m = (su2 m * svw m - suv m * suw m) / determinant m"

text \<open>The three statements that commit a fit: both coefficients and the plane monitor.\<close>

definition commitFit :: "lsfSums \<Rightarrow> 'd BestWPlaneDataAccessor \<Rightarrow> 'd BestWPlaneDataAccessor" where
  "commitFit m s = notifyPlaneChange (s\<lparr>itsCoeffA := fitCoeffA m, itsCoeffB := fitCoeffB m\<rparr>)"


section \<open>Reactive policy: updatePlaneIfNecessary\<close>

text \<open>The returned deviation together with the object after the call.\<close>

definition updatePlaneIfNecessary ::
  "'d BestWPlaneDataAccessor \<Rightarrow> uvw list \<Rightarrow> real \<Rightarrow> real \<times> 'd BestWPlaneDataAccessor" where
  "updatePlaneIfNecessary s uvw tolerance =
     (let maxDeviation = maxWDeviation s uvw in
      if length uvw < 2 \<or> maxDeviation < tolerance then (maxDeviation, s)
      else if almostSingular (determinant (accumulateSums uvw)) then (maxDeviation, s)
      else (maxWDeviation (commitFit (accumulateSums uvw) s) uvw, commitFit (accumulateSums uvw) s))"


section \<open>The fit in binary64 arithmetic\<close>

text \<open>
  Rounding to binary64: a non-zero \<open>x\<close> with \<open>2^e \<le> |x| < 2^(e+1)\<close> is rounded to the
  nearest multiple of \<open>2^(e-52)\<close>, a tie going to the even multiple. The exponent range is
  taken as unbounded (no overflow, no subnormal numbers). Each C++ operation rounds its
  exact result once: no fused multiply-add, no extended precision.
\<close>

definition roundToEven :: "real \<Rightarrow> int" where
  "roundToEven r =
     (if r - of_int \<lfloor>r\<rfloor> < 1 / 2 then \<lfloor>r\<rfloor>
      else if 1 / 2 < r - of_int \<lfloor>r\<rfloor> then \<lfloor>r\<rfloor> + 1
      else if even \<lfloor>r\<rfloor> then \<lfloor>r\<rfloor> else \<lfloor>r\<rfloor> + 1)"

definition binade :: "real \<Rightarrow> int" where
  "binade x = \<lfloor>log 2 \<bar>x\<bar>\<rfloor>"

definition fl :: "real \<Rightarrow> real" where
  "fl x = (if x = 0 then 0
           else of_int (roundToEven (x / 2 powr of_int (binade x - 52))) * 2 powr of_int (binade x - 52))"

text \<open>
  The deviation loop of \<^verbatim>\<open>maxWDeviation\<close>:
  \<^verbatim>\<open>fabs(coeffA()*currentUVW(0) + coeffB()*currentUVW(1) - currentUVW(2))\<close>, two products, a
  sum and a difference, each rounded; \<^verbatim>\<open>fabs\<close> is exact.
\<close>

definition deviationStep_double :: "real \<Rightarrow> real \<Rightarrow> uvw \<Rightarrow> real \<Rightarrow> real" where
  "deviationStep_double A B currentUVW maxDeviation =
     (case currentUVW of (u, v, w) \<Rightarrow>
        if \<bar>fl (fl (fl (A * u) + fl (B * v)) - w)\<bar> > maxDeviation
        then \<bar>fl (fl (fl (A * u) + fl (B * v)) - w)\<bar> else maxDeviation)"

definition maxWDeviation_double :: "'d BestWPlaneDataAccessor \<Rightarrow> uvw list \<Rightarrow> real" where
  "maxWDeviation_double s uvw = fold (deviationStep_double (coeffA s) (coeffB s)) uvw 0"

text \<open>The accumulation loop: \<^verbatim>\<open>su2 += casacore::square(currentUVW(0))\<close> and so on.\<close>

definition lsfStep_double :: "uvw \<Rightarrow> lsfSums \<Rightarrow> lsfSums" where
  "lsfStep_double currentUVW acc =
     (case currentUVW of (u, v, w) \<Rightarrow>
        \<lparr>su2 = fl (su2 acc + fl (u * u)),
         sv2 = fl (sv2 acc + fl (v * v)),
         suv = fl (suv acc + fl (u * v)),
         suw = fl (suw acc + fl (u * w)),
         svw = fl (svw acc + fl (v * w))\<rparr>)"

definition accumulateSums_double :: "uvw list \<Rightarrow> lsfSums" where
  "accumulateSums_double uvw =
     fold lsfStep_double uvw \<lparr>su2 = 0, sv2 = 0, suv = 0, suw = 0, svw = 0\<rparr>"

text \<open>\<^verbatim>\<open>const double D = su2 * sv2 - casacore::square(suv)\<close>\<close>

definition determinant_double :: "lsfSums \<Rightarrow> real" where
  "determinant_double m = fl (fl (su2 m * sv2 m) - fl (suv m * suv m))"

text \<open>
  \<^verbatim>\<open>(sv2 * suw - suv * svw) / D\<close> and \<^verbatim>\<open>(su2 * svw - suv * suw) / D\<close> with the stored
  \<open>D\<close>.
\<close>

definition fitCoeffA_double :: "lsfSums \<Rightarrow> real \<Rightarrow> real" where
  "fitCoeffA_double m D = fl (fl (fl (sv2 m * suw m) - fl (suv m * svw m)) / D)"

definition fitCoeffB_double :: "lsfSums \<Rightarrow> real \<Rightarrow> real" where
  "fitCoeffB_double m D = fl (fl (fl (su2 m * svw m) - fl (suv m * suw m)) / D)"

text \<open>
  \<^verbatim>\<open>updatePlaneIfNecessary\<close> with these operations. The literal \<^verbatim>\<open>1e-7\<close> is the
  binary64 number nearest to \<open>1/10^7\<close>; the rows and the tolerance are binary64 numbers
  already.
\<close>

definition updatePlaneIfNecessary_double ::
  "'d BestWPlaneDataAccessor \<Rightarrow> uvw list \<Rightarrow> real \<Rightarrow> real \<times> 'd BestWPlaneDataAccessor" where
  "updatePlaneIfNecessary_double s uvw tolerance =
     (let maxDeviation = maxWDeviation_double s uvw in
      if length uvw < 2 \<or> maxDeviation < tolerance then (maxDeviation, s)
      else
        (let m = accumulateSums_double uvw; D = determinant_double m in
         if \<bar>D\<bar> < fl (1 / 10000000) then (maxDeviation, s)
         else
           (let s' = notifyPlaneChange
                       (s\<lparr>itsCoeffA := fitCoeffA_double m D, itsCoeffB := fitCoeffB_double m D\<rparr>)
            in (maxWDeviation_double s' uvw, s'))))"


section \<open>Predictive policy: updateAdvancedTimePlaneIfNecessary\<close>

text \<open>
  \<^verbatim>\<open>casacore::Quantity angle(-1*(360./86400.0),"deg")\<close> read back in radians: one second
  of Earth rotation.
\<close>

definition angle_rad :: real where
  "angle_rad = -1 * (360 / 86400) * (pi / 180)"

text \<open>
  The loop \<^verbatim>\<open>while (AdvancedDeviation < tolerance)\<close>: shift the tangent point forward by
  one time step, fetch the coordinates there and evaluate the temporary plane on the first
  \<open>n\<close> rows, \<open>n\<close> being the row count of the chunk at the original tangent point. The loop
  has no iteration bound, so the model is a partial function: \<open>None\<close> is a run that never
  leaves the loop. The result is the tangent point reached. (\<^verbatim>\<open>TotalShift\<close> only feeds
  a log line that is switched off and is left out.)
\<close>

partial_function (option) advanceLoop ::
  "'d MDirectionOps \<Rightarrow> 'd IConstDataAccessor \<Rightarrow> nat \<Rightarrow> real \<Rightarrow> real \<Rightarrow> real \<Rightarrow> real
     \<Rightarrow> 'd \<Rightarrow> real \<Rightarrow> (error + 'd) option" where
  "advanceLoop ops acc n tmpCoeffA tmpCoeffB tolerance TimeShift newTangentPoint AdvancedDeviation =
     (if AdvancedDeviation < tolerance then
        (if length (acc_rotatedUVW acc (shiftLongitude ops (TimeShift * angle_rad) newTangentPoint)) < n
         then Some (Inl IndexOutOfRange)
         else advanceLoop ops acc n tmpCoeffA tmpCoeffB tolerance TimeShift
                (shiftLongitude ops (TimeShift * angle_rad) newTangentPoint)
                (planeDeviation tmpCoeffA tmpCoeffB
                   (take n (acc_rotatedUVW acc (shiftLongitude ops (TimeShift * angle_rad) newTangentPoint)))))
      else Some (Inr newTangentPoint))"

text \<open>
  The loop \<^verbatim>\<open>do { ... } while (on_exit_deviation > tolerance)\<close>. Each pass evaluates the
  committed plane at the original tangent point, steps the advanced tangent point back by
  one time step, fits the first \<open>n\<close> rows found there and commits the fit. A singular fit
  returns from the function with \<open>on_exit_deviation\<close> (result \<open>Some d\<close>); leaving the
  loop through its condition gives \<open>None\<close> in that place.
\<close>

partial_function (option) pullBackLoop ::
  "'d MDirectionOps \<Rightarrow> 'd IConstDataAccessor \<Rightarrow> 'd \<Rightarrow> nat \<Rightarrow> real \<Rightarrow> real
     \<Rightarrow> 'd BestWPlaneDataAccessor \<Rightarrow> 'd
     \<Rightarrow> (error + real option \<times> 'd BestWPlaneDataAccessor) option" where
  "pullBackLoop ops acc tangentPoint n tolerance TimeShift s newTangentPoint =
     (if length (acc_rotatedUVW acc (shiftLongitude ops (-1 * TimeShift * angle_rad) newTangentPoint)) < n
      then Some (Inl IndexOutOfRange)
      else if almostSingular (determinant (accumulateSums
                (take n (acc_rotatedUVW acc (shiftLongitude ops (-1 * TimeShift * angle_rad) newTangentPoint)))))
      then Some (Inr (Some (maxWDeviation s (acc_rotatedUVW acc tangentPoint)), s))
      else if maxWDeviation s (acc_rotatedUVW acc tangentPoint) > tolerance
      then pullBackLoop ops acc tangentPoint n tolerance TimeShift
             (commitFit (accumulateSums
                (take n (acc_rotatedUVW acc (shiftLongitude ops (-1 * TimeShift * angle_rad) newTangentPoint)))) s)
             (shiftLongitude ops (-1 * TimeShift * angle_rad) newTangentPoint)
      else Some (Inr (None,
             commitFit (accumulateSums
                (take n (acc_rotatedUVW acc (shiftLongitude ops (-1 * TimeShift * angle_rad) newTangentPoint)))) s)))"

text \<open>
  The second half of the function, from the declaration of \<^verbatim>\<open>angle\<close> to the final
  \<^verbatim>\<open>return maxWDeviation(uvw)\<close>: advance, then pull back and refit.
\<close>

definition predictiveSearch ::
  "'d MDirectionOps \<Rightarrow> 'd IConstDataAccessor \<Rightarrow> 'd BestWPlaneDataAccessor \<Rightarrow> real \<Rightarrow> 'd
     \<Rightarrow> uvw list \<Rightarrow> real \<Rightarrow> real \<Rightarrow> real
     \<Rightarrow> (error + real \<times> 'd BestWPlaneDataAccessor) option" where
  "predictiveSearch ops acc s tolerance tangentPoint uvw tmpCoeffA tmpCoeffB AdvancedDeviation =
     (case advanceLoop ops acc (length uvw) tmpCoeffA tmpCoeffB tolerance
             (itsPredictTimeInterval s) tangentPoint AdvancedDeviation of
        None \<Rightarrow> None
      | Some (Inl e) \<Rightarrow> Some (Inl e)
      | Some (Inr newTangentPoint) \<Rightarrow>
         (case pullBackLoop ops acc tangentPoint (length uvw) tolerance
                 (itsPredictTimeInterval s) s newTangentPoint of
            None \<Rightarrow> None
          | Some (Inl e) \<Rightarrow> Some (Inl e)
          | Some (Inr (Some on_exit_deviation, s')) \<Rightarrow> Some (Inr (on_exit_deviation, s'))
          | Some (Inr (None, s')) \<Rightarrow> Some (Inr (maxWDeviation s' uvw, s'))))"

text \<open>
  The first half: the deviation under the current plane, the temporary fit of the current
  chunk (\<^verbatim>\<open>tmpCoeffA\<close>, \<^verbatim>\<open>tmpCoeffB\<close>, not committed) and its deviation.
\<close>

definition updateAdvancedTimePlaneIfNecessary ::
  "'d MDirectionOps \<Rightarrow> 'd BestWPlaneDataAccessor \<Rightarrow> real \<Rightarrow> 'd
     \<Rightarrow> (error + real \<times> 'd BestWPlaneDataAccessor) option" where
  "updateAdvancedTimePlaneIfNecessary ops s tolerance tangentPoint =
     (case roAccessor s of
        None \<Rightarrow> Some (Inl AccessorNotAssigned)
      | Some acc \<Rightarrow>
         (let uvw = acc_rotatedUVW acc tangentPoint;
              AdvancedDeviation = maxWDeviation s uvw
          in if AdvancedDeviation < tolerance then Some (Inr (AdvancedDeviation, s))
             else if almostSingular (determinant (accumulateSums uvw))
             then Some (Inr (AdvancedDeviation, s))
             else
              (let tmpCoeffA = fitCoeffA (accumulateSums uvw);
                   tmpCoeffB = fitCoeffB (accumulateSums uvw);
                   AdvancedDeviation2 = planeDeviation tmpCoeffA tmpCoeffB uvw
               in if AdvancedDeviation2 > tolerance then Some (Inr (AdvancedDeviation2, s))
                  else predictiveSearch ops acc s tolerance tangentPoint uvw
                         tmpCoeffA tmpCoeffB AdvancedDeviation2)))"


section \<open>rotatedUVW\<close>

text \<open>\<^verbatim>\<open>casacore::C::c\<close>, the speed of light in m/s.\<close>

definition C_c :: real where
  "C_c = 299792458"

text \<open>
  \<^verbatim>\<open>freq.nelements() == 1 ? freq[0] : casacore::max(freq[0], freq[freq.nelements()-1])\<close>,
  evaluated only after the check that there is at least one channel.
\<close>

definition maxFreq :: "real list \<Rightarrow> real" where
  "maxFreq freq = (if length freq = 1 then freq ! 0 else max (freq ! 0) (freq ! (length freq - 1)))"

definition tolInMetres :: "real \<Rightarrow> real list \<Rightarrow> real" where
  "tolInMetres wTolerance freq = wTolerance * C_c / maxFreq freq"

text \<open>The row loop at the end: copy the row and subtract the current plane from \<open>w\<close>.\<close>

definition subtractPlane :: "real \<Rightarrow> real \<Rightarrow> uvw \<Rightarrow> uvw" where
  "subtractPlane A B currentUVW =
     (case currentUVW of (u, v, w) \<Rightarrow> (u, v, w - (A * u + B * v)))"

text \<open>
  The dispatch on \<^verbatim>\<open>itsPredictWPlane\<close>. The reactive policy always returns; the
  predictive one may not.
\<close>

definition updatePlane ::
  "'d MDirectionOps \<Rightarrow> 'd BestWPlaneDataAccessor \<Rightarrow> uvw list \<Rightarrow> real \<Rightarrow> 'd
     \<Rightarrow> (error + real \<times> 'd BestWPlaneDataAccessor) option" where
  "updatePlane ops s originalUVW tol tangentPoint =
     (if itsPredictWPlane s = False then Some (Inr (updatePlaneIfNecessary s originalUVW tol))
      else updateAdvancedTimePlaneIfNecessary ops s tol tangentPoint)"

text \<open>
  \<^verbatim>\<open>rotatedUVW(tangentPoint)\<close>: the returned vector together with the object after the
  call, or the exception thrown. The object after a throw is not modelled. The buffer is
  resized to the row count of the chunk and every row is assigned, which is the \<open>map\<close>.
  \<^verbatim>\<open>ASKAPDEBUGASSERT(maxFreq > 0.)\<close> is taken as compiled in: without it a maximum
  frequency of zero is a division by zero in double arithmetic, which the number model
  does not cover.
\<close>

definition rotatedUVW ::
  "'d MDirectionOps \<Rightarrow> 'd BestWPlaneDataAccessor \<Rightarrow> 'd
     \<Rightarrow> (error + uvw list \<times> 'd BestWPlaneDataAccessor) option" where
  "rotatedUVW ops s tangentPoint =
     (case roAccessor s of
        None \<Rightarrow> Some (Inl AccessorNotAssigned)
      | Some acc \<Rightarrow>
         if itsUVWChangeMonitor s = changeMonitor s then
           (if UVWMachineCache_compare ops tangentPoint (itsLastTangentPoint s)
            then Some (Inr (itsRotatedUVW s, s))
            else Some (Inl TangentPointMismatch))
         else
           (let s1 = s\<lparr>itsLastTangentPoint := tangentPoint\<rparr>;
                originalUVW = acc_rotatedUVW acc tangentPoint;
                freq = acc_frequency acc
            in if \<not> length freq \<ge> 1 then Some (Inl ZeroSpectralChannels)
               else if \<not> maxFreq freq > 0 then Some (Inl AssertionFailed)
               else
                (case updatePlane ops s1 originalUVW (tolInMetres (itsWTolerance s1) freq) tangentPoint of
                   None \<Rightarrow> None
                 | Some (Inl e) \<Rightarrow> Some (Inl e)
                 | Some (Inr (maxDeviation, s2)) \<Rightarrow>
                    if itsCheckResidual s2 \<and> \<not> maxDeviation < tolInMetres (itsWTolerance s1) freq
                    then Some (Inl ToleranceExceeded)
                    else Some (Inr (map (subtractPlane (coeffA s2) (coeffB s2)) originalUVW,
                                    s2\<lparr>itsRotatedUVW :=
                                         map (subtractPlane (coeffA s2) (coeffB s2)) originalUVW\<rparr>)))))"


section \<open>Concrete inputs\<close>

text \<open>
  Tangent points on the equator, given by their longitude in radians: shifting the
  longitude adds the angle, and two tangent points compare equal within \<open>1e-6\<close>.
\<close>

definition equatorOps :: "real MDirectionOps" where
  "equatorOps = \<lparr>shiftLongitude = (\<lambda>angle longitude. longitude + angle),
                  UVWMachineCache_compare = (\<lambda>a b. \<bar>a - b\<bar> \<le> 1 / 1000000)\<rparr>"

text \<open>Two rows on the plane \<open>w = 2 u + 3 v\<close>.\<close>

definition flatChunk :: "uvw list" where
  "flatChunk = [(1, 0, 2), (0, 1, 3)]"

text \<open>Two rows with colinear \<open>(u, v)\<close>: the determinant of the normal equations is zero.\<close>

definition colinearChunk :: "uvw list" where
  "colinearChunk = [(1, 1, 1), (2, 2, 0)]"

text \<open>
  Two rows on the plane \<open>w = 2 u + 3 v\<close> whose \<open>(u, v)\<close> are nearly colinear: every
  coordinate is an integer, so a binary64 number, and the exact determinant is \<open>961\<close>.
\<close>

definition nearColinearChunk :: "uvw list" where
  "nearColinearChunk = [(37972, 38003, 189953), (37973, 38004, 189958)]"

text \<open>
  Three rows that lie on no plane through the origin: the best fit is \<open>A = B = 1\<close> and
  leaves a deviation of one metre in every row.
\<close>

definition skewChunk :: "uvw list" where
  "skewChunk = [(1, 0, 0), (0, 1, 0), (1, 1, 3)]"

text \<open>
  Three rows whose best fit is \<open>A = B = 0\<close> with a deviation of exactly one metre.
\<close>

definition edgeChunk :: "uvw list" where
  "edgeChunk = [(1, 0, 1), (1, 0, - 1), (0, 1, 0)]"

text \<open>
  Accessors with one spectral channel at 299792458 Hz (a wavelength of one metre) whose
  geometry does not depend on the tangent point.
\<close>

definition staticAccessor :: "uvw list \<Rightarrow> real IConstDataAccessor" where
  "staticAccessor chunk = \<lparr>acc_rotatedUVW = (\<lambda>tangentPoint. chunk), acc_frequency = [299792458]\<rparr>"

text \<open>
  An accessor whose \<open>w\<close> coordinates drift linearly with time: \<open>k\<close> time steps of one
  second after the original tangent point \<open>0\<close> (longitude \<open>k * angle_rad\<close>) the two rows
  are \<open>(1, 0, 2 + 2 k)\<close> and \<open>(0, 1, - 5 k)\<close>.
\<close>

definition driftAccessor :: "real IConstDataAccessor" where
  "driftAccessor =
     \<lparr>acc_rotatedUVW = (\<lambda>tangentPoint.
          [(1, 0, 2 + 2 * (tangentPoint / angle_rad)), (0, 1, - 5 * (tangentPoint / angle_rad))]),
      acc_frequency = [299792458]\<rparr>"

text \<open>
  A freshly constructed adapter (tolerance in wavelengths, residual check flag), default
  tangent point \<open>0\<close>, time step of one second, associated with an accessor.
\<close>

definition freshAdapter :: "real \<Rightarrow> bool \<Rightarrow> real IConstDataAccessor \<Rightarrow> real BestWPlaneDataAccessor" where
  "freshAdapter tolerance checkResidual acc = associate acc (construct tolerance checkResidual 0 1)"

text \<open>The same adapter switched to the predictive policy.\<close>

definition predictiveAdapter :: "real \<Rightarrow> bool \<Rightarrow> real IConstDataAccessor \<Rightarrow> real BestWPlaneDataAccessor" where
  "predictiveAdapter tolerance checkResidual acc =
     (freshAdapter tolerance checkResidual acc)\<lparr>itsPredictWPlane := True\<rparr>"


text \<open>
  The adapter \<open>freshAdapter 1 True (staticAccessor flatChunk)\<close> after its first call of
  \<^verbatim>\<open>rotatedUVW\<close> at tangent point \<open>0\<close>: the plane \<open>w = 2 u + 3 v\<close> is committed and
  the buffer holds the corrected rows.
\<close>

definition boundAdapter :: "real BestWPlaneDataAccessor" where
  "boundAdapter =
     (freshAdapter 1 True (staticAccessor flatChunk))
       \<lparr>itsCoeffA := 2, itsCoeffB := 3, itsPlaneChangeMonitor := 1,
        itsRotatedUVW := [(1, 0, 0), (0, 1, 0)]\<rparr>"


section \<open>What a plane update may change\<close>

text \<open>
  \<open>planeOnly s s'\<close>: the object \<open>s'\<close> differs from \<open>s\<close> at most in the two coefficients
  and the plane monitor.
\<close>

definition planeOnly :: "'d BestWPlaneDataAccessor \<Rightarrow> 'd BestWPlaneDataAccessor \<Rightarrow> bool" where
  "planeOnly s s' =
     (s' = s\<lparr>itsCoeffA := itsCoeffA s', itsCoeffB := itsCoeffB s',
              itsPlaneChangeMonitor := itsPlaneChangeMonitor s'\<rparr>)"


text \<open>
  \<open>planeMonitorAdvanced s s'\<close>: either nothing changed or the plane monitor was notified.
\<close>

definition planeMonitorAdvanced :: "'d BestWPlaneDataAccessor \<Rightarrow> 'd BestWPlaneDataAccessor \<Rightarrow> bool" where
  "planeMonitorAdvanced s s' = (s' = s \<or> itsPlaneChangeMonitor s < itsPlaneChangeMonitor s')"


section \<open>Facts about the deviation and the fit\<close>

lemma fold_deviationStep_on_plane:
  "list_all (\<lambda>(u, v, w). w = A * u + B * v) uvw \<Longrightarrow> fold (deviationStep A B) uvw 0 = 0"
  by (induction uvw) (auto simp: deviationStep_def)

lemma planeDeviation_on_plane:
  "list_all (\<lambda>(u, v, w). w = A * u + B * v) uvw \<Longrightarrow> planeDeviation A B uvw = 0"
  by (simp add: planeDeviation_def fold_deviationStep_on_plane)

lemma deviationStep_subtractPlane:
  "deviationStep 0 0 (subtractPlane A B r) m = deviationStep A B r m"
  by (cases r) (simp add: deviationStep_def subtractPlane_def abs_minus_commute)

lemma planeDeviation_subtractPlane:
  "planeDeviation 0 0 (map (subtractPlane A B) uvw) = planeDeviation A B uvw"
proof -
  have "fold (deviationStep 0 0) (map (subtractPlane A B) uvw) m = fold (deviationStep A B) uvw m" for m
    by (induction uvw arbitrary: m) (simp_all add: deviationStep_subtractPlane)
  then show ?thesis by (simp add: planeDeviation_def)
qed

lemma fold_lsfStep_on_plane:
  "list_all (\<lambda>(u, v, w). w = A * u + B * v) uvw \<Longrightarrow>
   suw acc = A * su2 acc + B * suv acc \<Longrightarrow> svw acc = A * suv acc + B * sv2 acc \<Longrightarrow>
   suw (fold lsfStep uvw acc) = A * su2 (fold lsfStep uvw acc) + B * suv (fold lsfStep uvw acc) \<and>
   svw (fold lsfStep uvw acc) = A * suv (fold lsfStep uvw acc) + B * sv2 (fold lsfStep uvw acc)"
proof (induction uvw arbitrary: acc)
  case Nil
  then show ?case by simp
next
  case (Cons r uvw)
  obtain u v w where r: "r = (u, v, w)" by (cases r)
  from Cons.prems have w: "w = A * u + B * v"
    and rest: "list_all (\<lambda>(u, v, w). w = A * u + B * v) uvw"
    by (simp_all add: r)
  have "suw (lsfStep r acc) = A * su2 (lsfStep r acc) + B * suv (lsfStep r acc)"
    using Cons.prems(2) by (simp add: lsfStep_def r w algebra_simps)
  moreover have "svw (lsfStep r acc) = A * suv (lsfStep r acc) + B * sv2 (lsfStep r acc)"
    using Cons.prems(3) by (simp add: lsfStep_def r w algebra_simps)
  ultimately show ?case using Cons.IH [OF rest] by simp
qed

lemma accumulateSums_on_plane:
  assumes "list_all (\<lambda>(u, v, w). w = A * u + B * v) uvw"
  shows "suw (accumulateSums uvw) = A * su2 (accumulateSums uvw) + B * suv (accumulateSums uvw)"
    and "svw (accumulateSums uvw) = A * suv (accumulateSums uvw) + B * sv2 (accumulateSums uvw)"
  using fold_lsfStep_on_plane [OF assms, of "\<lparr>su2 = 0, sv2 = 0, suv = 0, suw = 0, svw = 0\<rparr>"]
  by (simp_all add: accumulateSums_def)

lemma fit_on_plane:
  assumes "list_all (\<lambda>(u, v, w). w = A * u + B * v) uvw"
    and "determinant (accumulateSums uvw) \<noteq> 0"
  shows "fitCoeffA (accumulateSums uvw) = A" and "fitCoeffB (accumulateSums uvw) = B"
proof -
  let ?m = "accumulateSums uvw"
  have "sv2 ?m * suw ?m - suv ?m * svw ?m = A * determinant ?m"
    by (simp add: accumulateSums_on_plane [OF assms(1)] determinant_def algebra_simps)
  then show "fitCoeffA ?m = A" using assms(2) by (simp add: fitCoeffA_def)
  have "su2 ?m * svw ?m - suv ?m * suw ?m = B * determinant ?m"
    by (simp add: accumulateSums_on_plane [OF assms(1)] determinant_def algebra_simps)
  then show "fitCoeffB ?m = B" using assms(2) by (simp add: fitCoeffB_def)
qed

lemma not_almostSingular_nonzero: "\<not> almostSingular D \<Longrightarrow> D \<noteq> 0"
  by (auto simp: almostSingular_def)

lemma angle_rad_nonzero [simp]: "angle_rad \<noteq> 0"
  by (simp add: angle_rad_def)

text \<open>The definitions a concrete run of the fit unfolds.\<close>

lemmas fit_eval =
  updatePlaneIfNecessary_def maxWDeviation_def planeDeviation_def deviationStep_def
  accumulateSums_def lsfStep_def determinant_def almostSingular_def fitCoeffA_def fitCoeffB_def
  commitFit_def notifyPlaneChange_def coeffA_def coeffB_def

lemmas adapter_eval =
  freshAdapter_def predictiveAdapter_def construct_def associate_def staticAccessor_def
  equatorOps_def

lemmas rotated_eval = rotatedUVW_def updatePlane_def maxFreq_def tolInMetres_def C_c_def
  subtractPlane_def Let_def

lemmas predictive_eval =
  updateAdvancedTimePlaneIfNecessary_def predictiveSearch_def advanceLoop.simps pullBackLoop.simps


section \<open>Facts about rounding to binary64\<close>

lemma roundToEven_of_int [simp]: "roundToEven (of_int m) = m"
  by (simp add: roundToEven_def)

lemma binade_eq:
  assumes "2 powr of_int e \<le> \<bar>x\<bar>" "\<bar>x\<bar> < 2 powr of_int (e + 1)"
  shows "binade x = e"
proof -
  have "(0::real) < 2 powr of_int e" by simp
  with assms(1) have "0 < \<bar>x\<bar>" by linarith
  then show ?thesis
    unfolding binade_def using assms by (simp add: floor_log_eq_powr_iff)
qed

lemma binade_bounds:
  assumes "x \<noteq> 0"
  shows "2 powr of_int (binade x) \<le> \<bar>x\<bar>" and "\<bar>x\<bar> < 2 powr of_int (binade x + 1)"
proof -
  have pos: "0 < \<bar>x\<bar>" using assms by simp
  have "(\<lfloor>log 2 \<bar>x\<bar>\<rfloor> = binade x)
      = (2 powr of_int (binade x) \<le> \<bar>x\<bar> \<and> \<bar>x\<bar> < 2 powr of_int (binade x + 1))"
    using floor_log_eq_powr_iff [of "\<bar>x\<bar>" 2 "binade x"] pos by simp
  then show "2 powr of_int (binade x) \<le> \<bar>x\<bar>" and "\<bar>x\<bar> < 2 powr of_int (binade x + 1)"
    by (simp_all add: binade_def)
qed

text \<open>Rounding in a binade at or above \<open>2^52\<close>, where the spacing is a power of two.\<close>

lemma fl_large:
  assumes "2 ^ k \<le> \<bar>x\<bar>" "\<bar>x\<bar> < 2 ^ Suc k" "52 \<le> k"
  shows "fl x = of_int (roundToEven (x / 2 ^ (k - 52))) * 2 ^ (k - 52)"
proof -
  have r1: "(2::real) powr of_int (int k) = 2 ^ k"
    by (simp add: powr_realpow)
  have "of_int (int k + 1) = real (Suc k)" by simp
  then have r2: "(2::real) powr of_int (int k + 1) = 2 ^ Suc k"
    by (simp only: powr_realpow zero_less_numeral)
  have b: "binade x = int k"
    by (rule binade_eq) (simp_all only: r1 r2 assms)
  have "of_int (int k - 52) = real (k - 52)" using assms(3) by simp
  then have p: "(2::real) powr of_int (int k - 52) = 2 ^ (k - 52)"
    by (simp only: powr_realpow zero_less_numeral)
  have "(0::real) < 2 ^ k" by simp
  with assms(1) have "0 < \<bar>x\<bar>" by linarith
  then have "x \<noteq> 0" by simp
  then show ?thesis by (simp only: fl_def b p if_False)
qed

text \<open>Rounding in a binade below one.\<close>

lemma fl_small:
  assumes "1 / 2 ^ Suc k \<le> \<bar>x\<bar>" "\<bar>x\<bar> < 1 / 2 ^ k"
  shows "fl x = of_int (roundToEven (x * 2 ^ (k + 53))) / 2 ^ (k + 53)"
proof -
  have "of_int (- int (Suc k)) = - real (Suc k)" by simp
  then have r1: "(2::real) powr of_int (- int (Suc k)) = 1 / 2 ^ Suc k"
    by (simp only: powr_minus powr_realpow zero_less_numeral inverse_eq_divide)
  have "of_int (- int (Suc k) + 1) = - real k" by simp
  then have r2: "(2::real) powr of_int (- int (Suc k) + 1) = 1 / 2 ^ k"
    by (simp only: powr_minus powr_realpow zero_less_numeral inverse_eq_divide)
  have b: "binade x = - int (Suc k)"
    by (rule binade_eq) (simp_all only: r1 r2 assms)
  have "of_int (- int (Suc k) - 52) = - real (k + 53)" by simp
  then have p: "(2::real) powr of_int (- int (Suc k) - 52) = 1 / 2 ^ (k + 53)"
    by (simp only: powr_minus powr_realpow zero_less_numeral inverse_eq_divide)
  have "(0::real) < 1 / 2 ^ Suc k" by simp
  with assms(1) have "0 < \<bar>x\<bar>" by linarith
  then have "x \<noteq> 0" by simp
  then have "fl x = of_int (roundToEven (x / (1 / 2 ^ (k + 53)))) * (1 / 2 ^ (k + 53))"
    by (simp only: fl_def b p if_False)
  then show ?thesis by simp
qed

text \<open>An integer below \<open>2^53\<close> in magnitude is a binary64 number.\<close>

lemma fl_of_int_exact:
  assumes "\<bar>of_int n :: real\<bar> < 2 ^ 53"
  shows "fl (of_int n) = of_int n"
proof (cases "n = 0")
  case True
  then show ?thesis by (simp add: fl_def)
next
  case False
  define e where "e = binade (of_int n)"
  have nz: "(of_int n :: real) \<noteq> 0" using False by simp
  note bb = binade_bounds [OF nz, folded e_def]
  have "1 \<le> \<bar>n\<bar>" using False by simp
  then have one: "1 \<le> \<bar>of_int n :: real\<bar>"
    by (metis of_int_1_le_iff of_int_abs)
  have e0: "0 \<le> e"
  proof (rule ccontr)
    assume "\<not> 0 \<le> e"
    then have "e + 1 \<le> 0" by simp
    then have "(2::real) powr of_int (e + 1) \<le> 2 powr 0"
      by (intro powr_mono) simp_all
    with bb(2) one show False by simp
  qed
  have e52: "e \<le> 52"
  proof (rule ccontr)
    assume "\<not> e \<le> 52"
    then have "53 \<le> e" by simp
    then have "(2::real) powr 53 \<le> 2 powr of_int e"
      by (intro powr_mono) simp_all
    moreover have "(2::real) powr 53 = 2 ^ 53"
      using powr_realpow [of "2::real" 53] by simp
    ultimately show False using bb(1) assms by linarith
  qed
  define j where "j = nat (52 - e)"
  have "of_int (e - 52) = - real j" using e52 by (simp add: j_def)
  then have p: "(2::real) powr of_int (e - 52) = 1 / 2 ^ j"
    by (simp add: powr_minus powr_realpow divide_simps)
  have q: "of_int n / (1 / 2 ^ j) = (of_int (n * 2 ^ j) :: real)"
    by simp
  have "fl (of_int n) = of_int (roundToEven (of_int n / 2 powr of_int (e - 52))) * 2 powr of_int (e - 52)"
    using nz by (simp only: fl_def e_def if_False)
  also have "\<dots> = of_int (n * 2 ^ j) * (1 / 2 ^ j)"
    by (simp only: p q roundToEven_of_int)
  also have "\<dots> = of_int n" by simp
  finally show ?thesis .
qed

lemma fl_numeral [simp]: "\<bar>numeral w :: real\<bar> < 2 ^ 53 \<Longrightarrow> fl (numeral w) = numeral w"
  using fl_of_int_exact [of "numeral w"] by simp

lemma fl_neg_numeral [simp]: "\<bar>numeral w :: real\<bar> < 2 ^ 53 \<Longrightarrow> fl (- numeral w) = - numeral w"
  using fl_of_int_exact [of "- numeral w"] by simp

lemma fl_zero [simp]: "fl 0 = 0"
  by (simp add: fl_def)

lemma fl_one [simp]: "fl 1 = 1"
  using fl_of_int_exact [of 1] by simp

text \<open>The literal \<^verbatim>\<open>1e-7\<close> and the six products of the fit of \<open>nearColinearChunk\<close>.\<close>

lemma fl_threshold: "fl (1 / 10000000) = 7555786372591432 / 2 ^ 76"
  by (subst fl_small [of 23]) (simp_all add: roundToEven_def)

lemma fl_product_1: "fl 8330010794684453825 = 8330010794684453888"
  by (subst fl_large [of 62]) (simp_all add: roundToEven_def)

lemma fl_product_2: "fl 8330010794684452864 = 8330010794684452864"
  by (subst fl_large [of 62]) (simp_all add: roundToEven_def)

lemma fl_product_3: "fl 41670455342933661250 = 41670455342933663744"
  by (subst fl_large [of 65]) (simp_all add: roundToEven_def)

lemma fl_product_4: "fl 41670455342933659328 = 41670455342933655552"
  by (subst fl_large [of 65]) (simp_all add: roundToEven_def)

lemma fl_product_5: "fl 41636464154874476483 = 41636464154874478592"
  by (subst fl_large [of 65]) (simp_all add: roundToEven_def)

lemma fl_product_6: "fl 41636464154874473600 = 41636464154874470400"
  by (subst fl_large [of 65]) (simp_all add: roundToEven_def)

lemmas fl_products = fl_product_1 fl_product_2 fl_product_3 fl_product_4 fl_product_5 fl_product_6

lemmas double_eval =
  updatePlaneIfNecessary_double_def maxWDeviation_double_def deviationStep_double_def
  accumulateSums_double_def lsfStep_double_def determinant_double_def
  fitCoeffA_double_def fitCoeffB_double_def fl_products fl_threshold


section \<open>Facts about the plane updates\<close>

text \<open>The returned deviation is the deviation of the chunk under the plane left committed.\<close>

lemma updatePlaneIfNecessary_deviation:
  "updatePlaneIfNecessary s uvw tolerance = (d, s') \<Longrightarrow> d = maxWDeviation s' uvw"
  by (auto simp: updatePlaneIfNecessary_def Let_def split: if_splits)

text \<open>The plane updates neither read nor write the residual check flag.\<close>

lemma maxWDeviation_flag [simp]:
  "maxWDeviation (s\<lparr>itsCheckResidual := b\<rparr>) uvw = maxWDeviation s uvw"
  by (simp add: maxWDeviation_def coeffA_def coeffB_def)

lemma commitFit_flag [simp]:
  "commitFit m (s\<lparr>itsCheckResidual := b\<rparr>) = (commitFit m s)\<lparr>itsCheckResidual := b\<rparr>"
  by (simp add: commitFit_def notifyPlaneChange_def)

lemma updatePlaneIfNecessary_flag:
  "updatePlaneIfNecessary s uvw tolerance = (d, s') \<Longrightarrow>
   updatePlaneIfNecessary (s\<lparr>itsCheckResidual := c\<rparr>) uvw tolerance = (d, s'\<lparr>itsCheckResidual := c\<rparr>)"
  by (auto simp: updatePlaneIfNecessary_def Let_def split: if_splits)

text \<open>
  Facts about the two loops are proved by fixpoint induction over the runs that return.
  A singular fit in the pull-back loop returns the deviation of the plane it retains.
\<close>

lemma pullBackLoop_early_return:
  assumes "pullBackLoop ops acc tangentPoint n tolerance TimeShift s newTangentPoint = Some y"
  shows "case y of Inr (Some d, s') \<Rightarrow> d = maxWDeviation s' (acc_rotatedUVW acc tangentPoint)
                 | _ \<Rightarrow> True"
  by (induct rule: pullBackLoop.raw_induct [OF _ assms]) (auto split: if_splits)

lemma pullBackLoop_flag:
  assumes "pullBackLoop ops acc tangentPoint n tolerance TimeShift s newTangentPoint = Some y"
  shows "pullBackLoop ops acc tangentPoint n tolerance TimeShift (s\<lparr>itsCheckResidual := b\<rparr>)
           newTangentPoint
         = Some (map_sum id (\<lambda>(r, s'). (r, s'\<lparr>itsCheckResidual := b\<rparr>)) y)"
proof (induct rule: pullBackLoop.raw_induct [OF _ assms])
  case (1 f ops acc tangentPoint n tolerance TimeShift s newTangentPoint y)
  show ?case
    using 1 by (subst pullBackLoop.simps) (auto simp: id_def split: if_splits)
qed

lemma predictiveSearch_deviation:
  assumes "predictiveSearch ops acc s tolerance tangentPoint (acc_rotatedUVW acc tangentPoint) a b d0
           = Some (Inr (d, s'))"
  shows "d = maxWDeviation s' (acc_rotatedUVW acc tangentPoint)"
proof -
  let ?uvw = "acc_rotatedUVW acc tangentPoint"
  from assms obtain ntp y where
    pb: "pullBackLoop ops acc tangentPoint (length ?uvw) tolerance (itsPredictTimeInterval s) s ntp = Some y"
    and y: "(case y of Inl e \<Rightarrow> Some (Inl e)
             | Inr (Some on_exit_deviation, s') \<Rightarrow> Some (Inr (on_exit_deviation, s'))
             | Inr (None, s') \<Rightarrow> Some (Inr (maxWDeviation s' ?uvw, s'))) = Some (Inr (d, s'))"
    by (auto simp: predictiveSearch_def split: option.splits sum.splits)
  from pullBackLoop_early_return [OF pb] y show ?thesis
    by (auto split: sum.splits option.splits prod.splits)
qed

lemma predictiveSearch_flag:
  assumes "predictiveSearch ops acc s tolerance tangentPoint uvw a b d0 = Some y"
  shows "predictiveSearch ops acc (s\<lparr>itsCheckResidual := c\<rparr>) tolerance tangentPoint uvw a b d0
         = Some (map_sum id (\<lambda>(r, s'). (r, s'\<lparr>itsCheckResidual := c\<rparr>)) y)"
proof (cases "advanceLoop ops acc (length uvw) a b tolerance (itsPredictTimeInterval s) tangentPoint d0")
  case None
  with assms show ?thesis by (simp add: predictiveSearch_def)
next
  case (Some r)
  show ?thesis
  proof (cases r)
    case (Inl e)
    with Some assms show ?thesis by (auto simp: predictiveSearch_def)
  next
    case (Inr ntp)
    show ?thesis
    proof (cases "pullBackLoop ops acc tangentPoint (length uvw) tolerance (itsPredictTimeInterval s) s ntp")
      case None
      with Some Inr assms show ?thesis by (simp add: predictiveSearch_def)
    next
      case (Some z)
      note pb = pullBackLoop_flag [OF Some, of c]
      from assms \<open>advanceLoop ops acc (length uvw) a b tolerance (itsPredictTimeInterval s) tangentPoint d0 = Some r\<close>
        Inr Some pb
      show ?thesis
        by (auto simp: predictiveSearch_def split: sum.splits option.splits prod.splits)
    qed
  qed
qed

lemma updateAdvanced_flag:
  assumes "updateAdvancedTimePlaneIfNecessary ops s tolerance tangentPoint = Some y"
  shows "updateAdvancedTimePlaneIfNecessary ops (s\<lparr>itsCheckResidual := c\<rparr>) tolerance tangentPoint
         = Some (map_sum id (\<lambda>(r, s'). (r, s'\<lparr>itsCheckResidual := c\<rparr>)) y)"
  using assms
  by (auto simp: updateAdvancedTimePlaneIfNecessary_def Let_def predictiveSearch_flag
      split: option.splits if_splits)

lemma updateAdvanced_deviation:
  assumes "updateAdvancedTimePlaneIfNecessary ops s tolerance tangentPoint = Some (Inr (d, s'))"
    and "roAccessor s = Some acc"
  shows "(d < tolerance) = (maxWDeviation s' (acc_rotatedUVW acc tangentPoint) < tolerance)"
  using assms
  by (auto simp: updateAdvancedTimePlaneIfNecessary_def Let_def
      dest: predictiveSearch_deviation split: if_splits)

lemma updatePlane_flag:
  assumes "updatePlane ops s uvw tolerance tangentPoint = Some (Inr (d, s'))"
  shows "updatePlane ops (s\<lparr>itsCheckResidual := c\<rparr>) uvw tolerance tangentPoint
         = Some (Inr (d, s'\<lparr>itsCheckResidual := c\<rparr>))"
proof (cases "itsPredictWPlane s")
  case False
  with assms show ?thesis
    by (auto simp: updatePlane_def dest: updatePlaneIfNecessary_flag)
next
  case True
  with assms updateAdvanced_flag [of ops s tolerance tangentPoint "Inr (d, s')" c] show ?thesis
    by (simp add: updatePlane_def)
qed

lemma updatePlane_deviation:
  assumes "updatePlane ops s (acc_rotatedUVW acc tangentPoint) tolerance tangentPoint = Some (Inr (d, s'))"
    and "roAccessor s = Some acc"
  shows "(d < tolerance) = (maxWDeviation s' (acc_rotatedUVW acc tangentPoint) < tolerance)"
proof (cases "itsPredictWPlane s")
  case False
  with assms(1) show ?thesis
    by (auto simp: updatePlane_def dest: updatePlaneIfNecessary_deviation)
next
  case True
  with assms updateAdvanced_deviation [of ops s tolerance tangentPoint d s' acc] show ?thesis
    by (simp add: updatePlane_def)
qed

text \<open>A plane update changes the coefficients and the plane monitor only.\<close>

lemma planeOnly_refl [simp]: "planeOnly s s"
  by (simp add: planeOnly_def)

lemma planeOnly_commitFit: "planeOnly (commitFit m s) s' \<Longrightarrow> planeOnly s s'"
  by (cases s, cases s') (simp add: planeOnly_def commitFit_def notifyPlaneChange_def)

lemma planeOnly_commitFit_self [simp]: "planeOnly s (commitFit m s)"
  by (cases s) (simp add: planeOnly_def commitFit_def notifyPlaneChange_def)

lemma pullBackLoop_planeOnly:
  assumes "pullBackLoop ops acc tangentPoint n tolerance TimeShift s newTangentPoint = Some y"
  shows "case y of Inr (r, s') \<Rightarrow> planeOnly s s' | _ \<Rightarrow> True"
proof (induct rule: pullBackLoop.raw_induct [OF _ assms])
  case (1 f ops acc tangentPoint n tolerance TimeShift s newTangentPoint y)
  show ?case
  proof (cases y)
    case (Inl e)
    then show ?thesis by simp
  next
    case (Inr p)
    obtain r s' where p: "p = (r, s')" by (cases p)
    from 1(2) have "planeOnly s s' \<or> (\<exists>m s0 ntp. planeOnly (commitFit m s) s'
        \<and> f ops acc tangentPoint n tolerance TimeShift (commitFit m s) ntp = Some y)"
      using 1(1) by (fastforce simp: Inr p split: if_splits)
    then show ?thesis
      by (auto simp: Inr p dest: planeOnly_commitFit)
  qed
qed

text \<open>The only exception of the loops is the read past the end of a shorter vector.\<close>

lemma advanceLoop_error:
  assumes "advanceLoop ops acc n a b tolerance TimeShift newTangentPoint d = Some y"
  shows "case y of Inl e \<Rightarrow> e = IndexOutOfRange | _ \<Rightarrow> True"
  by (induct rule: advanceLoop.raw_induct [OF _ assms]) (auto split: if_splits)

lemma pullBackLoop_error:
  assumes "pullBackLoop ops acc tangentPoint n tolerance TimeShift s newTangentPoint = Some y"
  shows "case y of Inl e \<Rightarrow> e = IndexOutOfRange | _ \<Rightarrow> True"
  by (induct rule: pullBackLoop.raw_induct [OF _ assms]) (auto split: if_splits)

lemma updatePlane_error:
  assumes "updatePlane ops s uvw tolerance tangentPoint = Some (Inl e)"
  shows "e = IndexOutOfRange \<or> e = AccessorNotAssigned"
proof (cases "itsPredictWPlane s")
  case False
  with assms show ?thesis by (simp add: updatePlane_def)
next
  case True
  have "e = IndexOutOfRange"
    if "predictiveSearch ops acc s tolerance tangentPoint u a b d0 = Some (Inl e)" for acc u a b d0
  proof (cases "advanceLoop ops acc (length u) a b tolerance (itsPredictTimeInterval s) tangentPoint d0")
    case None
    with that show ?thesis by (simp add: predictiveSearch_def)
  next
    case (Some r)
    show ?thesis
    proof (cases r)
      case (Inl e')
      with Some that advanceLoop_error [OF Some] show ?thesis
        by (simp add: predictiveSearch_def)
    next
      case (Inr ntp)
      show ?thesis
      proof (cases "pullBackLoop ops acc tangentPoint (length u) tolerance (itsPredictTimeInterval s) s ntp")
        case None
        with \<open>advanceLoop ops acc (length u) a b tolerance (itsPredictTimeInterval s) tangentPoint d0 = Some r\<close>
          Inr that show ?thesis by (simp add: predictiveSearch_def)
      next
        case (Some z)
        with \<open>advanceLoop ops acc (length u) a b tolerance (itsPredictTimeInterval s) tangentPoint d0 = Some r\<close>
          Inr that pullBackLoop_error [OF Some] show ?thesis
          by (auto simp: predictiveSearch_def split: sum.splits option.splits prod.splits)
      qed
    qed
  qed
  with True assms show ?thesis
    by (auto simp: updatePlane_def updateAdvancedTimePlaneIfNecessary_def Let_def
        split: option.splits if_splits)
qed

lemma updatePlane_planeOnly:
  assumes "updatePlane ops s uvw tolerance tangentPoint = Some (Inr (d, s'))"
  shows "planeOnly s s'"
proof (cases "itsPredictWPlane s")
  case False
  with assms show ?thesis
    by (auto simp: updatePlane_def updatePlaneIfNecessary_def Let_def split: if_splits)
next
  case True
  show ?thesis
  proof (cases "roAccessor s")
    case None
    with True assms show ?thesis
      by (simp add: updatePlane_def updateAdvancedTimePlaneIfNecessary_def)
  next
    case (Some acc)
    have "planeOnly s s'"
      if "predictiveSearch ops acc s tolerance tangentPoint u a b d0 = Some (Inr (d, s'))" for u a b d0
    proof -
      from that obtain ntp y where
        pb: "pullBackLoop ops acc tangentPoint (length u) tolerance (itsPredictTimeInterval s) s ntp = Some y"
        and y: "(case y of Inl e \<Rightarrow> Some (Inl e)
             | Inr (Some on_exit_deviation, s') \<Rightarrow> Some (Inr (on_exit_deviation, s'))
             | Inr (None, s') \<Rightarrow> Some (Inr (maxWDeviation s' u, s'))) = Some (Inr (d, s'))"
        by (auto simp: predictiveSearch_def split: option.splits sum.splits)
      from pullBackLoop_planeOnly [OF pb] y show ?thesis
        by (auto split: sum.splits option.splits prod.splits)
    qed
    with True Some assms show ?thesis
      by (auto simp: updatePlane_def updateAdvancedTimePlaneIfNecessary_def Let_def split: if_splits)
  qed
qed

lemma planeOnly_fields:
  assumes "planeOnly s s'"
  shows "itsCheckResidual s' = itsCheckResidual s" and "itsLastTangentPoint s' = itsLastTangentPoint s"
proof -
  from assms have e: "s' = s\<lparr>itsCoeffA := itsCoeffA s', itsCoeffB := itsCoeffB s',
              itsPlaneChangeMonitor := itsPlaneChangeMonitor s'\<rparr>"
    by (simp add: planeOnly_def)
  show "itsCheckResidual s' = itsCheckResidual s" by (subst e) simp
  show "itsLastTangentPoint s' = itsLastTangentPoint s" by (subst e) simp
qed


text \<open>
  The advance loop returns only after it has seen a deviation that is not below the
  tolerance: where the temporary plane stays within tolerance at every tangent point, it
  never returns.
\<close>

lemma advanceLoop_stays_within:
  assumes "advanceLoop ops acc n a b tolerance TimeShift newTangentPoint d = Some y"
  shows "\<not> (d < tolerance
            \<and> (\<forall>p. n \<le> length (acc_rotatedUVW acc p)
                   \<and> planeDeviation a b (take n (acc_rotatedUVW acc p)) < tolerance))"
proof (induct rule: advanceLoop.raw_induct [OF _ assms])
  case (1 f ops acc n a b tolerance TimeShift newTangentPoint d y)
  show ?case
  proof
    assume inv: "d < tolerance
            \<and> (\<forall>p. n \<le> length (acc_rotatedUVW acc p)
                   \<and> planeDeviation a b (take n (acc_rotatedUVW acc p)) < tolerance)"
    let ?p = "shiftLongitude ops (TimeShift * angle_rad) newTangentPoint"
    from inv have len: "\<not> length (acc_rotatedUVW acc ?p) < n"
      and next_dev: "planeDeviation a b (take n (acc_rotatedUVW acc ?p)) < tolerance"
      by (simp_all add: not_less)
    from 1(2) inv len
    have "f ops acc n a b tolerance TimeShift ?p (planeDeviation a b (take n (acc_rotatedUVW acc ?p))) = Some y"
      by simp
    from 1(1) [OF this] next_dev inv show False by simp
  qed
qed

lemma advanceLoop_never_returns:
  assumes "d < tolerance"
    and "\<And>p. n \<le> length (acc_rotatedUVW acc p)"
    and "\<And>p. planeDeviation a b (take n (acc_rotatedUVW acc p)) < tolerance"
  shows "advanceLoop ops acc n a b tolerance TimeShift newTangentPoint d = None"
proof (cases "advanceLoop ops acc n a b tolerance TimeShift newTangentPoint d")
  case None
  then show ?thesis .
next
  case (Some y)
  from advanceLoop_stays_within [OF Some] assms show ?thesis by simp
qed


section \<open>Facts about rotatedUVW\<close>

lemma flag_tangentPoint_swap:
  "s\<lparr>itsCheckResidual := c, itsLastTangentPoint := tangentPoint\<rparr>
   = s\<lparr>itsLastTangentPoint := tangentPoint, itsCheckResidual := c\<rparr>"
  by (cases s) simp

text \<open>
  The call on the recomputing path (a source change is detected), once the frequency checks
  pass and the plane update has returned.
\<close>

lemma rotatedUVW_recompute:
  assumes "roAccessor s = Some acc"
    and "itsUVWChangeMonitor s \<noteq> changeMonitor s"
    and "1 \<le> length (acc_frequency acc)"
    and "0 < maxFreq (acc_frequency acc)"
    and "updatePlane ops (s\<lparr>itsLastTangentPoint := tangentPoint\<rparr>) (acc_rotatedUVW acc tangentPoint)
           (tolInMetres (itsWTolerance s) (acc_frequency acc)) tangentPoint = Some (Inr (d, s'))"
  shows "rotatedUVW ops s tangentPoint =
           (if itsCheckResidual s' \<and> \<not> d < tolInMetres (itsWTolerance s) (acc_frequency acc)
            then Some (Inl ToleranceExceeded)
            else Some (Inr (map (subtractPlane (coeffA s') (coeffB s')) (acc_rotatedUVW acc tangentPoint),
                            s'\<lparr>itsRotatedUVW :=
                                 map (subtractPlane (coeffA s') (coeffB s')) (acc_rotatedUVW acc tangentPoint)\<rparr>)))"
  using assms by (simp add: rotatedUVW_def Let_def)

lemma subtractPlane_eq:
  "subtractPlane A B = (\<lambda>(u, v, w). (u, v, w - A * u - B * v))"
  by (auto simp: subtractPlane_def fun_eq_iff)

lemma maxFreq_first_last: "freq \<noteq> [] \<Longrightarrow> maxFreq freq = max (hd freq) (last freq)"
  by (cases "length freq = 1")
     (auto simp: maxFreq_def hd_conv_nth last_conv_nth length_Suc_conv)

lemma Max_sorted_last: "sorted xs \<Longrightarrow> xs \<noteq> [] \<Longrightarrow> Max (set xs) = last (xs :: real list)"
proof (induction xs)
  case Nil
  then show ?case by simp
next
  case (Cons x xs)
  then show ?case by (cases xs) (auto simp: max_def)
qed

lemma sorted_hd_le_last: "sorted xs \<Longrightarrow> xs \<noteq> [] \<Longrightarrow> hd xs \<le> last (xs :: real list)"
  by (cases xs) auto


lemma planeOnly_frame:
  assumes "planeOnly s s'"
  shows "roAccessor s' = roAccessor s" "changeMonitor s' = changeMonitor s"
    "itsUVWChangeMonitor s' = itsUVWChangeMonitor s" "itsWTolerance s' = itsWTolerance s"
    "itsPredictWPlane s' = itsPredictWPlane s"
proof -
  from assms have e: "s' = s\<lparr>itsCoeffA := itsCoeffA s', itsCoeffB := itsCoeffB s',
              itsPlaneChangeMonitor := itsPlaneChangeMonitor s'\<rparr>"
    by (simp add: planeOnly_def)
  show "roAccessor s' = roAccessor s" by (subst e) simp
  show "changeMonitor s' = changeMonitor s" by (subst e) simp
  show "itsUVWChangeMonitor s' = itsUVWChangeMonitor s" by (subst e) simp
  show "itsWTolerance s' = itsWTolerance s" by (subst e) simp
  show "itsPredictWPlane s' = itsPredictWPlane s" by (subst e) simp
qed

lemma updatePlane_within_tolerance:
  assumes "roAccessor s = Some acc"
    and "maxWDeviation s (acc_rotatedUVW acc tangentPoint) < tolerance"
  shows "updatePlane ops s (acc_rotatedUVW acc tangentPoint) tolerance tangentPoint
         = Some (Inr (maxWDeviation s (acc_rotatedUVW acc tangentPoint), s))"
  using assms
  by (simp add: updatePlane_def updatePlaneIfNecessary_def updateAdvancedTimePlaneIfNecessary_def Let_def)

text \<open>
  A second call on the object left by a call that recomputed, when the deviation left by
  the first call is below the tolerance: nothing changes.
\<close>

lemma rotatedUVW_repeat:
  assumes first: "rotatedUVW ops s tangentPoint = Some (Inr (out, s1))"
    and acc: "roAccessor s = Some acc"
    and changed: "itsUVWChangeMonitor s \<noteq> changeMonitor s"
    and within: "maxWDeviation s1 (acc_rotatedUVW acc tangentPoint)
                   < tolInMetres (itsWTolerance s) (acc_frequency acc)"
  shows "rotatedUVW ops s1 tangentPoint = Some (Inr (out, s1))"
proof -
  let ?uvw = "acc_rotatedUVW acc tangentPoint"
  let ?tol = "tolInMetres (itsWTolerance s) (acc_frequency acc)"
  from first acc changed obtain d s2 where
    freq: "1 \<le> length (acc_frequency acc)" "0 < maxFreq (acc_frequency acc)"
    and u: "updatePlane ops (s\<lparr>itsLastTangentPoint := tangentPoint\<rparr>) ?uvw ?tol tangentPoint
        = Some (Inr (d, s2))"
    and out: "out = map (subtractPlane (coeffA s2) (coeffB s2)) ?uvw"
    and s1: "s1 = s2\<lparr>itsRotatedUVW := out\<rparr>"
    by (auto simp: rotatedUVW_def Let_def split: option.splits sum.splits if_splits)
  note po = updatePlane_planeOnly [OF u]
  note fr = planeOnly_frame [OF po] planeOnly_fields [OF po]
  have acc1: "roAccessor s1 = Some acc"
    and changed1: "itsUVWChangeMonitor s1 \<noteq> changeMonitor s1"
    and tol1: "itsWTolerance s1 = itsWTolerance s"
    and last1: "s1\<lparr>itsLastTangentPoint := tangentPoint\<rparr> = s1"
    and co1: "coeffA s1 = coeffA s2" "coeffB s1 = coeffB s2"
    and buf1: "s1\<lparr>itsRotatedUVW := out\<rparr> = s1"
    using fr acc changed by (simp_all add: s1 coeffA_def coeffB_def)
  have u1: "updatePlane ops (s1\<lparr>itsLastTangentPoint := tangentPoint\<rparr>) ?uvw ?tol tangentPoint
      = Some (Inr (maxWDeviation s1 ?uvw, s1))"
    unfolding last1 by (rule updatePlane_within_tolerance [OF acc1 within])
  show ?thesis
    using rotatedUVW_recompute [OF acc1 changed1 freq, of ops tangentPoint "maxWDeviation s1 ?uvw" s1]
      u1 within
    by (simp add: tol1 co1 out [symmetric] buf1)
qed

text \<open>The deviation loop computes a maximum, starting from zero.\<close>

lemma deviationStep_max:
  "deviationStep A B r m = max m (case r of (u, v, w) \<Rightarrow> \<bar>A * u + B * v - w\<bar>)"
  by (cases r) (simp add: deviationStep_def max_def)

lemma fold_deviationStep_Max:
  "fold (deviationStep A B) uvw m
     = Max (insert m ((\<lambda>(u, v, w). \<bar>A * u + B * v - w\<bar>) ` set uvw))"
proof (induction uvw arbitrary: m)
  case Nil
  then show ?case by simp
next
  case (Cons r uvw)
  have "Max (insert (max m a) S) = Max (insert m (insert a S))" if "finite S" for a :: real and S
    using that by (cases "S = {}") (simp_all add: max.assoc)
  from this [of "(\<lambda>(u, v, w). \<bar>A * u + B * v - w\<bar>) ` set uvw"
      "case r of (u, v, w) \<Rightarrow> \<bar>A * u + B * v - w\<bar>"]
  have "Max (insert (max m (case r of (u, v, w) \<Rightarrow> \<bar>A * u + B * v - w\<bar>))
             ((\<lambda>(u, v, w). \<bar>A * u + B * v - w\<bar>) ` set uvw))
        = Max (insert m (insert (case r of (u, v, w) \<Rightarrow> \<bar>A * u + B * v - w\<bar>)
             ((\<lambda>(u, v, w). \<bar>A * u + B * v - w\<bar>) ` set uvw)))"
    by simp
  with Cons.IH show ?case by (simp add: deviationStep_max)
qed


text \<open>Every pass of the pull-back loop that changes the object notifies the plane monitor.\<close>

lemma planeMonitorAdvanced_commitFit:
  "planeMonitorAdvanced (commitFit m s) s' \<Longrightarrow> planeMonitorAdvanced s s'"
  by (auto simp: planeMonitorAdvanced_def commitFit_def notifyPlaneChange_def)

lemma planeMonitorAdvanced_commitFit_self: "planeMonitorAdvanced s (commitFit m s)"
  by (simp add: planeMonitorAdvanced_def commitFit_def notifyPlaneChange_def)

lemma pullBackLoop_planeMonitor:
  assumes "pullBackLoop ops acc tangentPoint n tolerance TimeShift s newTangentPoint = Some y"
  shows "case y of Inr (r, s') \<Rightarrow> planeMonitorAdvanced s s' | _ \<Rightarrow> True"
proof (induct rule: pullBackLoop.raw_induct [OF _ assms])
  case (1 f ops acc tangentPoint n tolerance TimeShift s newTangentPoint y)
  show ?case
  proof (cases y)
    case (Inl e)
    then show ?thesis by simp
  next
    case (Inr p)
    obtain r s' where p: "p = (r, s')" by (cases p)
    from 1(2) have "planeMonitorAdvanced s s' \<or> (\<exists>m. planeMonitorAdvanced (commitFit m s) s')"
      using 1(1) by (fastforce simp: Inr p planeMonitorAdvanced_def planeMonitorAdvanced_commitFit_self
          split: if_splits)
    then show ?thesis
      by (auto simp: Inr p dest: planeMonitorAdvanced_commitFit)
  qed
qed

lemma list_all_flat_on_plane:
  "list_all (\<lambda>(u, v, w). w = 0) uvw \<Longrightarrow> list_all (\<lambda>(u, v, w). w = 0 * u + 0 * v) (uvw :: uvw list)"
  by (induction uvw) auto


section \<open>Reactive policy\<close>

text \<open>
  In exact arithmetic a chunk of at least two rows that lie on the plane
  \<open>w = A0 u + B0 v\<close>, with \<open>|D| \<ge> 1e-7\<close>, refitted because the deviation from the prior
  plane is not below the tolerance, gives back \<open>A0\<close> and \<open>B0\<close> and a deviation of \<open>0\<close>.
\<close>

lemma exact_fit_recovers_plane:
  assumes "2 \<le> length uvw"
    and "list_all (\<lambda>(u, v, w). w = A0 * u + B0 * v) uvw"
    and "\<not> \<bar>determinant (accumulateSums uvw)\<bar> < 1 / 10000000"
    and "\<not> maxWDeviation s uvw < tolerance"
  shows "updatePlaneIfNecessary s uvw tolerance =
           (0, s\<lparr>itsCoeffA := A0, itsCoeffB := B0,
                 itsPlaneChangeMonitor := itsPlaneChangeMonitor s + 1\<rparr>)
         \<and> A0 = (sv2 (accumulateSums uvw) * suw (accumulateSums uvw)
                 - suv (accumulateSums uvw) * svw (accumulateSums uvw))
                / determinant (accumulateSums uvw)
         \<and> B0 = (su2 (accumulateSums uvw) * svw (accumulateSums uvw)
                 - suv (accumulateSums uvw) * suw (accumulateSums uvw))
                / determinant (accumulateSums uvw)"
proof -
  let ?m = "accumulateSums uvw"
  have ns: "\<not> almostSingular (determinant ?m)"
    using assms(3) by (simp add: almostSingular_def)
  have A: "fitCoeffA ?m = A0" and B: "fitCoeffB ?m = B0"
    using fit_on_plane [OF assms(2) not_almostSingular_nonzero [OF ns]] by simp_all
  have c: "commitFit ?m s =
      s\<lparr>itsCoeffA := A0, itsCoeffB := B0, itsPlaneChangeMonitor := itsPlaneChangeMonitor s + 1\<rparr>"
    by (simp add: commitFit_def notifyPlaneChange_def A B)
  have d: "maxWDeviation (commitFit ?m s) uvw = 0"
    by (simp add: c maxWDeviation_def coeffA_def coeffB_def planeDeviation_on_plane [OF assms(2)])
  have "updatePlaneIfNecessary s uvw tolerance = (maxWDeviation (commitFit ?m s) uvw, commitFit ?m s)"
    using assms(1,4) ns by (simp add: updatePlaneIfNecessary_def Let_def)
  then have "updatePlaneIfNecessary s uvw tolerance = (0, commitFit ?m s)"
    by (simp only: d)
  then have "updatePlaneIfNecessary s uvw tolerance =
      (0, s\<lparr>itsCoeffA := A0, itsCoeffB := B0,
            itsPlaneChangeMonitor := itsPlaneChangeMonitor s + 1\<rparr>)"
    by (simp only: c)
  moreover have "A0 = (sv2 ?m * suw ?m - suv ?m * svw ?m) / determinant ?m"
    using A by (simp add: fitCoeffA_def)
  moreover have "B0 = (su2 ?m * svw ?m - suv ?m * suw ?m) / determinant ?m"
    using B by (simp add: fitCoeffB_def)
  ultimately show ?thesis by blast
qed

text \<open>
  C1 on the code. The two rows of \<open>nearColinearChunk\<close> lie exactly on \<open>w = 2 u + 3 v\<close>, the
  determinant of their normal equations is \<open>961\<close>, and a freshly constructed adapter is
  out of tolerance on them, so \<^verbatim>\<open>updatePlaneIfNecessary\<close> refits. In binary64 the two
  products \<open>su2 * sv2\<close> and \<open>suv * suv\<close> are rounded to multiples of \<open>1024\<close> and their
  difference is \<open>1024\<close>, not \<open>961\<close>; the two numerators come out as \<open>8192\<close>. The code
  commits \<open>A = B = 8\<close> and returns a deviation of \<open>417858\<close> metres for rows that are
  exactly coplanar, where exact arithmetic gives \<open>A = 2\<close>, \<open>B = 3\<close> and \<open>0\<close>.
\<close>

theorem updatePlaneIfNecessary_double_loses_plane:
  "nearColinearChunk
     = [(37972, 38003, 2 * 37972 + 3 * 38003), (37973, 38004, 2 * 37973 + 3 * 38004)]
   \<and> determinant (accumulateSums nearColinearChunk) = 961
   \<and> determinant_double (accumulateSums_double nearColinearChunk) = 1024
   \<and> maxWDeviation_double (freshAdapter 1 True (staticAccessor nearColinearChunk)) nearColinearChunk
       = 189958
   \<and> updatePlaneIfNecessary_double (freshAdapter 1 True (staticAccessor nearColinearChunk))
         nearColinearChunk 1
       = (417858, (freshAdapter 1 True (staticAccessor nearColinearChunk))
                    \<lparr>itsCoeffA := 8, itsCoeffB := 8, itsPlaneChangeMonitor := 1\<rparr>)
   \<and> updatePlaneIfNecessary (freshAdapter 1 True (staticAccessor nearColinearChunk))
         nearColinearChunk 1
       = (0, (freshAdapter 1 True (staticAccessor nearColinearChunk))
               \<lparr>itsCoeffA := 2, itsCoeffB := 3, itsPlaneChangeMonitor := 1\<rparr>)"
proof -
  let ?s = "freshAdapter 1 True (staticAccessor nearColinearChunk)"
  have rows: "nearColinearChunk
     = [(37972, 38003, 2 * 37972 + 3 * 38003), (37973, 38004, 2 * 37973 + 3 * 38004)]"
    by (simp add: nearColinearChunk_def)
  have exact_det: "determinant (accumulateSums nearColinearChunk) = 961"
    by (simp add: nearColinearChunk_def accumulateSums_def lsfStep_def determinant_def)
  have double_det: "determinant_double (accumulateSums_double nearColinearChunk) = 1024"
    by (simp add: nearColinearChunk_def double_eval)
  have dev: "maxWDeviation_double ?s nearColinearChunk = 189958"
    by (simp add: nearColinearChunk_def double_eval coeffA_def coeffB_def adapter_eval)
  have double_run: "updatePlaneIfNecessary_double ?s nearColinearChunk 1
      = (417858, ?s\<lparr>itsCoeffA := 8, itsCoeffB := 8, itsPlaneChangeMonitor := 1\<rparr>)"
    by (simp add: nearColinearChunk_def double_eval coeffA_def coeffB_def notifyPlaneChange_def
        adapter_eval Let_def)
  have exact_run: "updatePlaneIfNecessary ?s nearColinearChunk 1
      = (0, ?s\<lparr>itsCoeffA := 2, itsCoeffB := 3, itsPlaneChangeMonitor := 1\<rparr>)"
    by (simp add: nearColinearChunk_def fit_eval adapter_eval)
  from rows exact_det double_det dev double_run exact_run show ?thesis
    by blast
qed

text \<open>
  C8. A chunk with fewer than two rows: the reactive policy attempts no fit. The object,
  and with it the committed coefficients, is unchanged and the returned deviation is the
  maximum deviation of the chunk under the prior coefficients.
\<close>

theorem updatePlaneIfNecessary_few_rows:
  "length uvw < 2 \<Longrightarrow> updatePlaneIfNecessary s uvw tolerance = (maxWDeviation s uvw, s)"
  by (simp add: updatePlaneIfNecessary_def)

theorem updatePlaneIfNecessary_few_rows_witness:
  "updatePlaneIfNecessary (freshAdapter 1 True (staticAccessor [(1, 2, 3)])) [(1, 2, 3)] 1 =
     (3, freshAdapter 1 True (staticAccessor [(1, 2, 3)]))"
proof -
  have h: "length [(1, 2, 3) :: uvw] < 2"
    by simp
  show ?thesis
    using updatePlaneIfNecessary_few_rows [OF h, of "freshAdapter 1 True (staticAccessor [(1, 2, 3)])" 1]
    by (simp add: fit_eval adapter_eval)
qed

section \<open>Singular fits\<close>

text \<open>
  C2. A fit attempt whose determinant satisfies \<open>|D| < 1e-7\<close> leaves the object (and so
  both committed coefficients) unchanged, raises no exception and returns the deviation of
  the chunk at the current tangent point under the retained coefficients. The three
  conjuncts are the three fits of the source: the fit of the reactive policy, the
  temporary fit of the predictive policy, and the fit in each pass of its pull-back loop
  (\<open>s\<close> is the object at the start of that pass, \<open>n\<close> the row count of the chunk).
\<close>

theorem singular_fit_retains_plane:
  "(almostSingular (determinant (accumulateSums uvw)) \<longrightarrow>
      updatePlaneIfNecessary s uvw tolerance = (maxWDeviation s uvw, s))
   \<and> (roAccessor s = Some acc
        \<and> almostSingular (determinant (accumulateSums (acc_rotatedUVW acc tangentPoint))) \<longrightarrow>
      updateAdvancedTimePlaneIfNecessary ops s tolerance tangentPoint
        = Some (Inr (maxWDeviation s (acc_rotatedUVW acc tangentPoint), s)))
   \<and> (n \<le> length (acc_rotatedUVW acc (shiftLongitude ops (- 1 * TimeShift * angle_rad) newTangentPoint))
        \<and> almostSingular (determinant (accumulateSums (take n
             (acc_rotatedUVW acc (shiftLongitude ops (- 1 * TimeShift * angle_rad) newTangentPoint))))) \<longrightarrow>
      pullBackLoop ops acc tangentPoint n tolerance TimeShift s newTangentPoint
        = Some (Inr (Some (maxWDeviation s (acc_rotatedUVW acc tangentPoint)), s)))"
proof (intro conjI impI)
  assume "almostSingular (determinant (accumulateSums uvw))"
  then show "updatePlaneIfNecessary s uvw tolerance = (maxWDeviation s uvw, s)"
    by (simp add: updatePlaneIfNecessary_def Let_def)
next
  assume "roAccessor s = Some acc
    \<and> almostSingular (determinant (accumulateSums (acc_rotatedUVW acc tangentPoint)))"
  then show "updateAdvancedTimePlaneIfNecessary ops s tolerance tangentPoint
        = Some (Inr (maxWDeviation s (acc_rotatedUVW acc tangentPoint), s))"
    by (simp add: updateAdvancedTimePlaneIfNecessary_def Let_def)
next
  assume "n \<le> length (acc_rotatedUVW acc (shiftLongitude ops (- 1 * TimeShift * angle_rad) newTangentPoint))
        \<and> almostSingular (determinant (accumulateSums (take n
             (acc_rotatedUVW acc (shiftLongitude ops (- 1 * TimeShift * angle_rad) newTangentPoint)))))"
  then show "pullBackLoop ops acc tangentPoint n tolerance TimeShift s newTangentPoint
        = Some (Inr (Some (maxWDeviation s (acc_rotatedUVW acc tangentPoint)), s))"
    by (subst pullBackLoop.simps) simp
qed

theorem singular_fit_retains_plane_witness:
  "almostSingular (determinant (accumulateSums colinearChunk))
   \<and> updatePlaneIfNecessary (freshAdapter 1 False (staticAccessor colinearChunk)) colinearChunk (1 / 2)
       = (1, freshAdapter 1 False (staticAccessor colinearChunk))
   \<and> updateAdvancedTimePlaneIfNecessary equatorOps
         (predictiveAdapter 1 False (staticAccessor colinearChunk)) (1 / 2) 0
       = Some (Inr (1, predictiveAdapter 1 False (staticAccessor colinearChunk)))
   \<and> pullBackLoop equatorOps (staticAccessor colinearChunk) 0 2 (1 / 2) 1
         (predictiveAdapter 1 False (staticAccessor colinearChunk)) 0
       = Some (Inr (Some 1, predictiveAdapter 1 False (staticAccessor colinearChunk)))"
proof -
  let ?acc = "staticAccessor colinearChunk"
  have sing: "almostSingular (determinant (accumulateSums colinearChunk))"
    by (simp add: colinearChunk_def fit_eval)
  have acc: "roAccessor (predictiveAdapter 1 False ?acc) = Some ?acc"
    by (simp add: adapter_eval)
  have rot: "acc_rotatedUVW ?acc d = colinearChunk" for d
    by (simp add: adapter_eval)
  have len: "2 \<le> length (acc_rotatedUVW ?acc (shiftLongitude equatorOps (- 1 * 1 * angle_rad) 0))"
    unfolding rot by (simp add: colinearChunk_def)
  have tk: "take 2 colinearChunk = colinearChunk"
    by (simp add: colinearChunk_def)
  have dev: "maxWDeviation (freshAdapter 1 False ?acc) colinearChunk = 1"
    "maxWDeviation (predictiveAdapter 1 False ?acc) colinearChunk = 1"
    by (simp_all add: colinearChunk_def fit_eval adapter_eval)
  show ?thesis
    using singular_fit_retains_plane [of colinearChunk "freshAdapter 1 False ?acc" "1 / 2"
        ?acc 0 equatorOps 2 1 0]
      singular_fit_retains_plane [of colinearChunk "predictiveAdapter 1 False ?acc" "1 / 2"
        ?acc 0 equatorOps 2 1 0]
      sing acc len
    by (simp add: rot tk dev)
qed


section \<open>Tolerance in metres\<close>

text \<open>
  C5 on the code. The comment in the source reads "use the largest frequency/smallest
  wavelength, i.e. worst case scenario", and the code takes the larger of the first and
  the last frequency. With the channels at 1, 3 and 2 GHz that is 2 GHz although the
  largest frequency is 3 GHz, so the tolerance in metres comes out one and a half times
  too large.
\<close>

theorem tolInMetres_not_max_frequency:
  "maxFreq [1000000000, 3000000000, 2000000000] = 2000000000
   \<and> Max (set [1000000000, 3000000000, 2000000000 :: real]) = 3000000000
   \<and> tolInMetres 1 [1000000000, 3000000000, 2000000000] = C_c / 2000000000
   \<and> tolInMetres 1 [1000000000, 3000000000, 2000000000]
       \<noteq> 1 * C_c / Max (set [1000000000, 3000000000, 2000000000])"
  by (simp add: tolInMetres_def maxFreq_def C_c_def)


section \<open>rotatedUVW: residual check, corrected rows, tangent point, repeated calls\<close>

text \<open>
  C3 as amended. A call that recomputes (accessor assigned, source change detected, at
  least one channel, positive maximum frequency) and whose plane update returns \<open>(d, s')\<close>;
  the update of the reactive policy always returns, the search of the predictive policy
  may not. With \<^verbatim>\<open>checkResidual\<close> enabled the call throws the tolerance exception if and
  only if the deviation of the current rows from the committed plane is not strictly below
  the tolerance in metres, and returns the corrected rows otherwise; with
  \<^verbatim>\<open>checkResidual\<close> disabled and everything else the same it returns the corrected rows
  in either case. The call returns the rows and nothing else: the deviation that the plane
  update computed is not part of the result.
\<close>

theorem rotatedUVW_residual_check:
  assumes acc: "roAccessor s = Some acc"
    and changed: "itsUVWChangeMonitor s \<noteq> changeMonitor s"
    and freq: "1 \<le> length (acc_frequency acc)" "0 < maxFreq (acc_frequency acc)"
    and reactive: "\<not> itsPredictWPlane s \<Longrightarrow>
           (d, s') = updatePlaneIfNecessary (s\<lparr>itsLastTangentPoint := tangentPoint\<rparr>)
                       (acc_rotatedUVW acc tangentPoint)
                       (tolInMetres (itsWTolerance s) (acc_frequency acc))"
    and predictive: "itsPredictWPlane s \<Longrightarrow>
           updateAdvancedTimePlaneIfNecessary ops (s\<lparr>itsLastTangentPoint := tangentPoint\<rparr>)
             (tolInMetres (itsWTolerance s) (acc_frequency acc)) tangentPoint = Some (Inr (d, s'))"
  shows "rotatedUVW ops (s\<lparr>itsCheckResidual := True\<rparr>) tangentPoint =
           (if maxWDeviation s' (acc_rotatedUVW acc tangentPoint)
                 < tolInMetres (itsWTolerance s) (acc_frequency acc)
            then Some (Inr (map (subtractPlane (coeffA s') (coeffB s')) (acc_rotatedUVW acc tangentPoint),
                            s'\<lparr>itsCheckResidual := True,
                               itsRotatedUVW :=
                                 map (subtractPlane (coeffA s') (coeffB s')) (acc_rotatedUVW acc tangentPoint)\<rparr>))
            else Some (Inl ToleranceExceeded))
         \<and> rotatedUVW ops (s\<lparr>itsCheckResidual := False\<rparr>) tangentPoint =
             Some (Inr (map (subtractPlane (coeffA s') (coeffB s')) (acc_rotatedUVW acc tangentPoint),
                        s'\<lparr>itsCheckResidual := False,
                           itsRotatedUVW :=
                             map (subtractPlane (coeffA s') (coeffB s')) (acc_rotatedUVW acc tangentPoint)\<rparr>))"
proof -
  let ?uvw = "acc_rotatedUVW acc tangentPoint"
  let ?tol = "tolInMetres (itsWTolerance s) (acc_frequency acc)"
  have upd: "updatePlane ops (s\<lparr>itsLastTangentPoint := tangentPoint\<rparr>) ?uvw ?tol tangentPoint
      = Some (Inr (d, s'))"
    using reactive predictive by (cases "itsPredictWPlane s") (simp_all add: updatePlane_def)
  have dev: "(d < ?tol) = (maxWDeviation s' ?uvw < ?tol)"
    using updatePlane_deviation [OF upd] acc by simp
  have upd': "updatePlane ops (s\<lparr>itsCheckResidual := c, itsLastTangentPoint := tangentPoint\<rparr>) ?uvw ?tol tangentPoint
      = Some (Inr (d, s'\<lparr>itsCheckResidual := c\<rparr>))" for c
    using updatePlane_flag [OF upd, of c] by (simp add: flag_tangentPoint_swap)
  have on: "rotatedUVW ops (s\<lparr>itsCheckResidual := True\<rparr>) tangentPoint =
      (if maxWDeviation s' ?uvw < ?tol
       then Some (Inr (map (subtractPlane (coeffA s') (coeffB s')) ?uvw,
                       s'\<lparr>itsCheckResidual := True,
                          itsRotatedUVW := map (subtractPlane (coeffA s') (coeffB s')) ?uvw\<rparr>))
       else Some (Inl ToleranceExceeded))"
    using rotatedUVW_recompute [of "s\<lparr>itsCheckResidual := True\<rparr>" acc ops tangentPoint d
        "s'\<lparr>itsCheckResidual := True\<rparr>"] acc changed freq upd' [of True] dev
    by (simp add: coeffA_def coeffB_def)
  have off: "rotatedUVW ops (s\<lparr>itsCheckResidual := False\<rparr>) tangentPoint =
      Some (Inr (map (subtractPlane (coeffA s') (coeffB s')) ?uvw,
                 s'\<lparr>itsCheckResidual := False,
                    itsRotatedUVW := map (subtractPlane (coeffA s') (coeffB s')) ?uvw\<rparr>))"
    using rotatedUVW_recompute [of "s\<lparr>itsCheckResidual := False\<rparr>" acc ops tangentPoint d
        "s'\<lparr>itsCheckResidual := False\<rparr>"] acc changed freq upd' [of False]
    by (simp add: coeffA_def coeffB_def)
  from on off show ?thesis by blast
qed

theorem rotatedUVW_residual_check_witness:
  "rotatedUVW equatorOps (freshAdapter (1 / 2) True (staticAccessor skewChunk)) 0
     = Some (Inl ToleranceExceeded)
   \<and> rotatedUVW equatorOps (freshAdapter (1 / 2) False (staticAccessor skewChunk)) 0
     = Some (Inr ([(1, 0, - 1), (0, 1, - 1), (1, 1, 1)],
                 (freshAdapter (1 / 2) False (staticAccessor skewChunk))
                   \<lparr>itsCoeffA := 1, itsCoeffB := 1, itsPlaneChangeMonitor := 1,
                    itsRotatedUVW := [(1, 0, - 1), (0, 1, - 1), (1, 1, 1)]\<rparr>))
   \<and> rotatedUVW equatorOps (predictiveAdapter 1 True driftAccessor) 0
     = Some (Inl ToleranceExceeded)
   \<and> rotatedUVW equatorOps (predictiveAdapter 1 False driftAccessor) 0
     = Some (Inr ([(1, 0, 2), (0, 1, - 5)],
                 (predictiveAdapter 1 False driftAccessor)
                   \<lparr>itsCoeffA := 0, itsCoeffB := 5, itsPlaneChangeMonitor := 2,
                    itsRotatedUVW := [(1, 0, 2), (0, 1, - 5)]\<rparr>))
   \<and> rotatedUVW equatorOps (predictiveAdapter 100 True driftAccessor) 0
     = Some (Inr ([(1, 0, 2), (0, 1, 0)],
                 (predictiveAdapter 100 True driftAccessor)
                   \<lparr>itsRotatedUVW := [(1, 0, 2), (0, 1, 0)]\<rparr>))"
proof -
  have freq: "1 \<le> length (acc_frequency (staticAccessor chunk))"
    "0 < maxFreq (acc_frequency (staticAccessor chunk))"
    "1 \<le> length (acc_frequency driftAccessor)" "0 < maxFreq (acc_frequency driftAccessor)" for chunk
    by (simp_all add: adapter_eval driftAccessor_def maxFreq_def)
  have rows: "acc_rotatedUVW (staticAccessor skewChunk) 0 = skewChunk"
    "acc_rotatedUVW driftAccessor 0 = [(1, 0, 2), (0, 1, 0)]"
    by (simp_all add: adapter_eval driftAccessor_def)
  \<comment> \<open>reactive policy, half a metre of tolerance, one metre of deviation left by the fit\<close>
  let ?r = "freshAdapter (1 / 2) False (staticAccessor skewChunk)"
  let ?r' = "?r\<lparr>itsCoeffA := 1, itsCoeffB := 1, itsPlaneChangeMonitor := 1\<rparr>"
  have r1: "roAccessor ?r = Some (staticAccessor skewChunk)"
    and r2: "itsUVWChangeMonitor ?r \<noteq> changeMonitor ?r"
    and r3: "\<not> itsPredictWPlane ?r"
    and r4: "tolInMetres (itsWTolerance ?r) (acc_frequency (staticAccessor skewChunk)) = 1 / 2"
    by (simp_all add: adapter_eval tolInMetres_def maxFreq_def C_c_def)
  have r5: "(1, ?r') = updatePlaneIfNecessary (?r\<lparr>itsLastTangentPoint := 0\<rparr>)
      (acc_rotatedUVW (staticAccessor skewChunk) 0)
      (tolInMetres (itsWTolerance ?r) (acc_frequency (staticAccessor skewChunk)))"
    unfolding r4 rows by (simp add: fit_eval adapter_eval skewChunk_def)
  have r6: "maxWDeviation ?r' skewChunk = 1" "coeffA ?r' = 1" "coeffB ?r' = 1"
    "map (subtractPlane 1 1) skewChunk = [(1, 0, - 1), (0, 1, - 1), (1, 1, 1)]"
    by (simp_all add: fit_eval skewChunk_def subtractPlane_def)
  note reactive = rotatedUVW_residual_check [OF r1 r2 freq(1,2) r5, unfolded r4 rows r6]
  \<comment> \<open>predictive policy, one metre of tolerance, the search returns five metres\<close>
  let ?p = "predictiveAdapter 1 False driftAccessor"
  let ?p' = "?p\<lparr>itsCoeffA := 0, itsCoeffB := 5, itsPlaneChangeMonitor := 2\<rparr>"
  have p1: "roAccessor ?p = Some driftAccessor"
    and p2: "itsUVWChangeMonitor ?p \<noteq> changeMonitor ?p"
    and p3: "itsPredictWPlane ?p"
    and p4: "tolInMetres (itsWTolerance ?p) (acc_frequency driftAccessor) = 1"
    by (simp_all add: adapter_eval driftAccessor_def tolInMetres_def maxFreq_def C_c_def)
  have p5: "updateAdvancedTimePlaneIfNecessary equatorOps (?p\<lparr>itsLastTangentPoint := 0\<rparr>)
      (tolInMetres (itsWTolerance ?p) (acc_frequency driftAccessor)) 0 = Some (Inr (5, ?p'))"
    unfolding p4 by (simp add: predictive_eval fit_eval adapter_eval driftAccessor_def)
  have p6: "maxWDeviation ?p' [(1, 0, 2), (0, 1, 0)] = 5" "coeffA ?p' = 0" "coeffB ?p' = 5"
    "map (subtractPlane 0 5) [(1, 0, 2), (0, 1, 0)] = [(1, 0, 2), (0, 1, - 5)]"
    by (simp_all add: fit_eval subtractPlane_def)
  note predictive = rotatedUVW_residual_check [OF p1 p2 freq(3,4) _ p5, unfolded p4 rows p6]
  \<comment> \<open>predictive policy, a hundred metres of tolerance, the plane is kept\<close>
  let ?q = "predictiveAdapter 100 False driftAccessor"
  have q1: "roAccessor ?q = Some driftAccessor"
    and q2: "itsUVWChangeMonitor ?q \<noteq> changeMonitor ?q"
    and q3: "itsPredictWPlane ?q"
    and q4: "tolInMetres (itsWTolerance ?q) (acc_frequency driftAccessor) = 100"
    by (simp_all add: adapter_eval driftAccessor_def tolInMetres_def maxFreq_def C_c_def)
  have q5: "updateAdvancedTimePlaneIfNecessary equatorOps (?q\<lparr>itsLastTangentPoint := 0\<rparr>)
      (tolInMetres (itsWTolerance ?q) (acc_frequency driftAccessor)) 0
      = Some (Inr (2, ?q\<lparr>itsLastTangentPoint := 0\<rparr>))"
    unfolding q4 by (simp add: updateAdvancedTimePlaneIfNecessary_def fit_eval adapter_eval driftAccessor_def)
  have q6: "maxWDeviation (?q\<lparr>itsLastTangentPoint := 0\<rparr>) [(1, 0, 2), (0, 1, 0)] = 2"
    "coeffA (?q\<lparr>itsLastTangentPoint := 0\<rparr>) = 0" "coeffB (?q\<lparr>itsLastTangentPoint := 0\<rparr>) = 0"
    "map (subtractPlane 0 0) [(1, 0, 2), (0, 1, 0)] = [(1, 0, 2), (0, 1, 0)]"
    by (simp_all add: fit_eval subtractPlane_def adapter_eval)
  note kept = rotatedUVW_residual_check [OF q1 q2 freq(3,4) _ q5, unfolded q4 rows q6]
  from reactive r3 predictive p3 kept q3 show ?thesis
    by (simp add: adapter_eval)
qed

text \<open>
  C3 as stated fails: not every call fails or returns. With the predictive policy and an
  accessor whose rows do not depend on the tangent point, the temporary plane stays within
  tolerance at every advanced tangent point and the advance loop never ends. The deviation
  from the committed plane is three metres against a tolerance of one metre, yet the call
  with \<^verbatim>\<open>checkResidual\<close> enabled does not fail, and the call with it disabled does not
  return.
\<close>

theorem rotatedUVW_predictive_never_returns:
  "rotatedUVW equatorOps (predictiveAdapter 1 True (staticAccessor flatChunk)) 0 = None
   \<and> rotatedUVW equatorOps (predictiveAdapter 1 False (staticAccessor flatChunk)) 0 = None
   \<and> maxWDeviation (predictiveAdapter 1 True (staticAccessor flatChunk)) flatChunk = 3
   \<and> tolInMetres 1 [299792458] = 1"
proof -
  let ?acc = "staticAccessor flatChunk"
  have rot: "acc_rotatedUVW ?acc p = flatChunk" for p
    by (simp add: adapter_eval)
  have fit: "\<not> almostSingular (determinant (accumulateSums flatChunk))"
    "fitCoeffA (accumulateSums flatChunk) = 2" "fitCoeffB (accumulateSums flatChunk) = 3"
    "planeDeviation 2 3 flatChunk = 0" "take (length flatChunk) flatChunk = flatChunk"
    by (simp_all add: flatChunk_def fit_eval)
  have dev: "maxWDeviation (predictiveAdapter 1 c ?acc) flatChunk = 3" for c
    by (simp add: adapter_eval flatChunk_def fit_eval)
  have loop: "advanceLoop equatorOps ?acc (length flatChunk) 2 3 1 1 0 0 = None"
    by (rule advanceLoop_never_returns) (simp_all add: rot fit)
  have upd: "updateAdvancedTimePlaneIfNecessary equatorOps
      ((predictiveAdapter 1 c ?acc)\<lparr>itsLastTangentPoint := 0\<rparr>) 1 0 = None" for c
  proof -
    let ?s = "(predictiveAdapter 1 c ?acc)\<lparr>itsLastTangentPoint := 0\<rparr>"
    have s: "roAccessor ?s = Some ?acc" "itsPredictTimeInterval ?s = 1"
      "maxWDeviation ?s flatChunk = 3"
      using dev [of c] by (simp_all add: adapter_eval maxWDeviation_def coeffA_def coeffB_def)
    have "predictiveSearch equatorOps ?acc ?s 1 0 flatChunk 2 3 0 = None"
      by (simp only: predictiveSearch_def s loop option.case)
    then show ?thesis
      by (simp add: updateAdvancedTimePlaneIfNecessary_def Let_def s rot fit)
  qed
  have call: "rotatedUVW equatorOps (predictiveAdapter 1 c ?acc) 0 = None" for c
  proof -
    let ?s = "predictiveAdapter 1 c ?acc"
    have s: "roAccessor ?s = Some ?acc" "itsUVWChangeMonitor ?s \<noteq> changeMonitor ?s"
      "itsPredictWPlane (?s\<lparr>itsLastTangentPoint := 0\<rparr>)"
      "tolInMetres (itsWTolerance (?s\<lparr>itsLastTangentPoint := 0\<rparr>)) (acc_frequency ?acc) = 1"
      "1 \<le> length (acc_frequency ?acc)" "0 < maxFreq (acc_frequency ?acc)"
      by (simp_all add: adapter_eval tolInMetres_def maxFreq_def C_c_def)
    show ?thesis
      using s upd [of c] by (simp add: rotatedUVW_def Let_def updatePlane_def)
  qed
  have tol: "tolInMetres 1 [299792458] = 1"
    by (simp add: tolInMetres_def maxFreq_def C_c_def)
  from call [of True] call [of False] dev [of True] tol show ?thesis by blast
qed

text \<open>
  C4. The vector returned by a call that recomputes has one row per row of the chunk, and
  row \<open>(u, v, w)\<close> of the chunk is returned as \<open>(u, v, w - coeffA u - coeffB v)\<close> with the
  coefficients committed when the call returns; the same vector is left in the buffer.
\<close>

theorem rotatedUVW_subtracts_plane:
  assumes "rotatedUVW ops s tangentPoint = Some (Inr (out, s'))"
    and "roAccessor s = Some acc"
    and "itsUVWChangeMonitor s \<noteq> changeMonitor s"
  shows "length out = length (acc_rotatedUVW acc tangentPoint)
         \<and> out = map (\<lambda>(u, v, w). (u, v, w - coeffA s' * u - coeffB s' * v))
                    (acc_rotatedUVW acc tangentPoint)
         \<and> itsRotatedUVW s' = out"
  using assms
  by (auto simp: rotatedUVW_def Let_def subtractPlane_eq coeffA_def coeffB_def
      split: if_splits option.splits sum.splits)

theorem rotatedUVW_subtracts_plane_witness:
  "rotatedUVW equatorOps (freshAdapter (1 / 2) False (staticAccessor skewChunk)) 0
     = Some (Inr ([(1, 0, - 1), (0, 1, - 1), (1, 1, 1)],
                 (freshAdapter (1 / 2) False (staticAccessor skewChunk))
                   \<lparr>itsCoeffA := 1, itsCoeffB := 1, itsPlaneChangeMonitor := 1,
                    itsRotatedUVW := [(1, 0, - 1), (0, 1, - 1), (1, 1, 1)]\<rparr>))
   \<and> length [(1, 0, - 1), (0, 1, - 1), (1, 1, 1 :: real)] = length skewChunk
   \<and> [(1, 0, - 1), (0, 1, - 1), (1, 1, 1)]
       = map (\<lambda>(u, v, w). (u, v, w - 1 * u - 1 * v)) skewChunk"
proof -
  let ?s = "freshAdapter (1 / 2) False (staticAccessor skewChunk)"
  let ?out = "[(1, 0, - 1), (0, 1, - 1), (1, 1, 1 :: real)]"
  let ?s' = "?s\<lparr>itsCoeffA := 1, itsCoeffB := 1, itsPlaneChangeMonitor := 1, itsRotatedUVW := ?out\<rparr>"
  have h1: "rotatedUVW equatorOps ?s 0 = Some (Inr (?out, ?s'))"
    by (simp add: rotated_eval fit_eval adapter_eval skewChunk_def)
  have h2: "roAccessor ?s = Some (staticAccessor skewChunk)"
    by (simp add: adapter_eval)
  have h3: "itsUVWChangeMonitor ?s \<noteq> changeMonitor ?s"
    by (simp add: adapter_eval)
  show ?thesis
    using rotatedUVW_subtracts_plane [OF h1 h2 h3] h1
    by (simp add: coeffA_def coeffB_def adapter_eval)
qed

text \<open>
  C7 as amended. The tangent point is checked only on the path that returns the buffer:
  when no source change is detected, a tangent point that does not compare equal to the
  last one recorded makes the call throw. When a source change is detected the call never
  throws the tangent point exception; it records the tangent point it was given.
\<close>

theorem tangent_point_check_scope:
  "roAccessor s = Some acc \<Longrightarrow>
     (itsUVWChangeMonitor s = changeMonitor s \<longrightarrow>
        rotatedUVW ops s tangentPoint =
          (if UVWMachineCache_compare ops tangentPoint (itsLastTangentPoint s)
           then Some (Inr (itsRotatedUVW s, s)) else Some (Inl TangentPointMismatch)))
     \<and> (itsUVWChangeMonitor s \<noteq> changeMonitor s \<longrightarrow>
          rotatedUVW ops s tangentPoint \<noteq> Some (Inl TangentPointMismatch)
          \<and> (\<forall>out s'. rotatedUVW ops s tangentPoint = Some (Inr (out, s')) \<longrightarrow>
                itsLastTangentPoint s' = tangentPoint))"
proof (intro conjI impI allI)
  assume "roAccessor s = Some acc" "itsUVWChangeMonitor s = changeMonitor s"
  then show "rotatedUVW ops s tangentPoint =
          (if UVWMachineCache_compare ops tangentPoint (itsLastTangentPoint s)
           then Some (Inr (itsRotatedUVW s, s)) else Some (Inl TangentPointMismatch))"
    by (simp add: rotatedUVW_def)
next
  assume a: "roAccessor s = Some acc" "itsUVWChangeMonitor s \<noteq> changeMonitor s"
  have no: "updatePlane ops s0 u t tangentPoint \<noteq> Some (Inl TangentPointMismatch)" for s0 u t
    using updatePlane_error [of ops s0 u t tangentPoint TangentPointMismatch] by auto
  show "rotatedUVW ops s tangentPoint \<noteq> Some (Inl TangentPointMismatch)"
    using a no [of "s\<lparr>itsLastTangentPoint := tangentPoint\<rparr>"]
    by (auto simp: rotatedUVW_def Let_def split: option.splits sum.splits if_splits)
next
  fix out s'
  assume a: "roAccessor s = Some acc" "itsUVWChangeMonitor s \<noteq> changeMonitor s"
    and r: "rotatedUVW ops s tangentPoint = Some (Inr (out, s'))"
  from a r obtain d s2 t where
    u: "updatePlane ops (s\<lparr>itsLastTangentPoint := tangentPoint\<rparr>) (acc_rotatedUVW acc tangentPoint) t tangentPoint
        = Some (Inr (d, s2))"
    and s': "s' = s2\<lparr>itsRotatedUVW := out\<rparr>"
    by (auto simp: rotatedUVW_def Let_def split: option.splits sum.splits if_splits)
  from planeOnly_fields(2) [OF updatePlane_planeOnly [OF u]] s'
  show "itsLastTangentPoint s' = tangentPoint" by simp
qed

theorem tangent_point_check_scope_witness:
  "rotatedUVW equatorOps (boundAdapter\<lparr>itsUVWChangeMonitor := 1\<rparr>) 1 = Some (Inl TangentPointMismatch)
   \<and> rotatedUVW equatorOps boundAdapter 1 \<noteq> Some (Inl TangentPointMismatch)
   \<and> rotatedUVW equatorOps boundAdapter 1
       = Some (Inr ([(1, 0, 0), (0, 1, 0)], boundAdapter\<lparr>itsLastTangentPoint := 1\<rparr>))
   \<and> itsLastTangentPoint (boundAdapter\<lparr>itsLastTangentPoint := 1\<rparr>) = 1"
proof -
  let ?acc = "staticAccessor flatChunk"
  have h1: "roAccessor (boundAdapter\<lparr>itsUVWChangeMonitor := 1\<rparr>) = Some ?acc"
    and h2: "roAccessor boundAdapter = Some ?acc"
    by (simp_all add: boundAdapter_def adapter_eval)
  have m1: "itsUVWChangeMonitor (boundAdapter\<lparr>itsUVWChangeMonitor := 1\<rparr>)
      = changeMonitor (boundAdapter\<lparr>itsUVWChangeMonitor := 1\<rparr>)"
    and m2: "itsUVWChangeMonitor boundAdapter \<noteq> changeMonitor boundAdapter"
    by (simp_all add: boundAdapter_def adapter_eval)
  have c: "\<not> UVWMachineCache_compare equatorOps 1
      (itsLastTangentPoint (boundAdapter\<lparr>itsUVWChangeMonitor := 1\<rparr>))"
    by (simp add: boundAdapter_def adapter_eval)
  have r: "rotatedUVW equatorOps boundAdapter 1
       = Some (Inr ([(1, 0, 0), (0, 1, 0)], boundAdapter\<lparr>itsLastTangentPoint := 1\<rparr>))"
    by (simp add: boundAdapter_def rotated_eval fit_eval adapter_eval flatChunk_def)
  show ?thesis
    using tangent_point_check_scope [OF h1, of equatorOps 1]
      tangent_point_check_scope [OF h2, of equatorOps 1] m1 m2 c r
    by simp
qed

text \<open>
  C7 as stated fails: an adapter bound to tangent point \<open>0\<close> by its first call, then
  notified of a source change, accepts the tangent point \<open>1\<close>, which does not compare
  equal to \<open>0\<close>, and returns normally.
\<close>

theorem rotatedUVW_accepts_other_tangent_point:
  "rotatedUVW equatorOps (freshAdapter 1 True (staticAccessor flatChunk)) 0
     = Some (Inr ([(1, 0, 0), (0, 1, 0)], boundAdapter))
   \<and> \<not> UVWMachineCache_compare equatorOps 1 0
   \<and> rotatedUVW equatorOps (associate (staticAccessor flatChunk) boundAdapter) 1
     = Some (Inr ([(1, 0, 0), (0, 1, 0)],
                 (associate (staticAccessor flatChunk) boundAdapter)\<lparr>itsLastTangentPoint := 1\<rparr>))"
  by (simp add: boundAdapter_def rotated_eval fit_eval adapter_eval flatChunk_def)

text \<open>
  C9 on the code. \<^verbatim>\<open>rotatedUVW\<close> never assigns \<^verbatim>\<open>itsUVWChangeMonitor\<close>, so after a
  source change every call recomputes. With \<^verbatim>\<open>checkResidual\<close> disabled and three rows
  that no plane fits within half a metre, the second of two consecutive calls (same
  tangent point, no source change in between) fits again: it returns the same rows and
  commits the same coefficients, but notifies the plane monitor a second time.
\<close>

theorem second_call_refits:
  "rotatedUVW equatorOps (freshAdapter (1 / 2) False (staticAccessor skewChunk)) 0
     = Some (Inr ([(1, 0, - 1), (0, 1, - 1), (1, 1, 1)],
                 (freshAdapter (1 / 2) False (staticAccessor skewChunk))
                   \<lparr>itsCoeffA := 1, itsCoeffB := 1, itsPlaneChangeMonitor := 1,
                    itsRotatedUVW := [(1, 0, - 1), (0, 1, - 1), (1, 1, 1)]\<rparr>))
   \<and> rotatedUVW equatorOps
       ((freshAdapter (1 / 2) False (staticAccessor skewChunk))
          \<lparr>itsCoeffA := 1, itsCoeffB := 1, itsPlaneChangeMonitor := 1,
           itsRotatedUVW := [(1, 0, - 1), (0, 1, - 1), (1, 1, 1)]\<rparr>) 0
     = Some (Inr ([(1, 0, - 1), (0, 1, - 1), (1, 1, 1)],
                 (freshAdapter (1 / 2) False (staticAccessor skewChunk))
                   \<lparr>itsCoeffA := 1, itsCoeffB := 1, itsPlaneChangeMonitor := 2,
                    itsRotatedUVW := [(1, 0, - 1), (0, 1, - 1), (1, 1, 1)]\<rparr>))"
  by (simp add: rotated_eval fit_eval adapter_eval skewChunk_def)


section \<open>Predictive policy: the committed plane and the original tangent point\<close>

text \<open>
  C6 on the code. In each pass of the pull-back loop \<^verbatim>\<open>on_exit_deviation\<close> is computed
  before the pass commits its fit, so the loop condition tests the plane of the previous
  pass. For the linearly drifting rows of \<open>driftAccessor\<close> and a tolerance of one metre
  the first pass commits \<open>A = 2, B = 0\<close>, which has deviation \<open>0\<close> at the original
  tangent point; the second pass finds that deviation within tolerance, commits the fit
  of the rows one step before the original tangent point, \<open>A = 0, B = 5\<close>, and leaves the
  loop. The function returns with a committed plane that deviates by five metres at the
  original tangent point, and with \<^verbatim>\<open>checkResidual\<close> the call throws.
\<close>

theorem predictive_final_commit_unvalidated:
  "updateAdvancedTimePlaneIfNecessary equatorOps (predictiveAdapter 1 False driftAccessor) 1 0
     = Some (Inr (5, (predictiveAdapter 1 False driftAccessor)
                       \<lparr>itsCoeffA := 0, itsCoeffB := 5, itsPlaneChangeMonitor := 2\<rparr>))
   \<and> planeDeviation 2 0 (acc_rotatedUVW driftAccessor 0) = 0
   \<and> rotatedUVW equatorOps (predictiveAdapter 1 True driftAccessor) 0 = Some (Inl ToleranceExceeded)"
  by (simp add: predictive_eval rotated_eval fit_eval adapter_eval driftAccessor_def)


section \<open>Deviations equal to the tolerance\<close>

text \<open>
  C10 as amended. Three comparisons treat a deviation equal to the tolerance as exceeding
  it. In the reactive policy a chunk of at least two rows is fitted (while a deviation
  below the tolerance returns at once); in the predictive policy the function does not
  return at once but goes on to the temporary fit (while a deviation below the tolerance
  returns at once); and with \<^verbatim>\<open>checkResidual\<close> a final deviation equal to the tolerance
  in metres makes \<^verbatim>\<open>rotatedUVW\<close> throw.
\<close>

theorem comparisons_at_tolerance:
  "(2 \<le> length uvw \<and> maxWDeviation s uvw = tolerance \<longrightarrow>
      updatePlaneIfNecessary s uvw tolerance =
        (if almostSingular (determinant (accumulateSums uvw)) then (tolerance, s)
         else (maxWDeviation (commitFit (accumulateSums uvw) s) uvw, commitFit (accumulateSums uvw) s)))
   \<and> (maxWDeviation s uvw < tolerance \<longrightarrow>
        updatePlaneIfNecessary s uvw tolerance = (maxWDeviation s uvw, s))
   \<and> (roAccessor s = Some acc \<and> maxWDeviation s (acc_rotatedUVW acc tangentPoint) = tolerance \<longrightarrow>
        updateAdvancedTimePlaneIfNecessary ops s tolerance tangentPoint =
          (if almostSingular (determinant (accumulateSums (acc_rotatedUVW acc tangentPoint)))
           then Some (Inr (tolerance, s))
           else if planeDeviation (fitCoeffA (accumulateSums (acc_rotatedUVW acc tangentPoint)))
                     (fitCoeffB (accumulateSums (acc_rotatedUVW acc tangentPoint)))
                     (acc_rotatedUVW acc tangentPoint) > tolerance
           then Some (Inr (planeDeviation (fitCoeffA (accumulateSums (acc_rotatedUVW acc tangentPoint)))
                             (fitCoeffB (accumulateSums (acc_rotatedUVW acc tangentPoint)))
                             (acc_rotatedUVW acc tangentPoint), s))
           else predictiveSearch ops acc s tolerance tangentPoint (acc_rotatedUVW acc tangentPoint)
                  (fitCoeffA (accumulateSums (acc_rotatedUVW acc tangentPoint)))
                  (fitCoeffB (accumulateSums (acc_rotatedUVW acc tangentPoint)))
                  (planeDeviation (fitCoeffA (accumulateSums (acc_rotatedUVW acc tangentPoint)))
                     (fitCoeffB (accumulateSums (acc_rotatedUVW acc tangentPoint)))
                     (acc_rotatedUVW acc tangentPoint))))
   \<and> (roAccessor s = Some acc \<and> maxWDeviation s (acc_rotatedUVW acc tangentPoint) < tolerance \<longrightarrow>
        updateAdvancedTimePlaneIfNecessary ops s tolerance tangentPoint
          = Some (Inr (maxWDeviation s (acc_rotatedUVW acc tangentPoint), s)))
   \<and> (roAccessor s = Some acc \<and> itsUVWChangeMonitor s \<noteq> changeMonitor s
        \<and> 1 \<le> length (acc_frequency acc) \<and> 0 < maxFreq (acc_frequency acc)
        \<and> itsCheckResidual s
        \<and> updatePlane ops (s\<lparr>itsLastTangentPoint := tangentPoint\<rparr>) (acc_rotatedUVW acc tangentPoint)
             (tolInMetres (itsWTolerance s) (acc_frequency acc)) tangentPoint
           = Some (Inr (tolInMetres (itsWTolerance s) (acc_frequency acc), s')) \<longrightarrow>
        rotatedUVW ops s tangentPoint = Some (Inl ToleranceExceeded))"
proof (intro conjI impI)
  assume "2 \<le> length uvw \<and> maxWDeviation s uvw = tolerance"
  then show "updatePlaneIfNecessary s uvw tolerance =
        (if almostSingular (determinant (accumulateSums uvw)) then (tolerance, s)
         else (maxWDeviation (commitFit (accumulateSums uvw) s) uvw, commitFit (accumulateSums uvw) s))"
    by (auto simp: updatePlaneIfNecessary_def Let_def)
next
  assume "maxWDeviation s uvw < tolerance"
  then show "updatePlaneIfNecessary s uvw tolerance = (maxWDeviation s uvw, s)"
    by (simp add: updatePlaneIfNecessary_def)
next
  assume "roAccessor s = Some acc \<and> maxWDeviation s (acc_rotatedUVW acc tangentPoint) = tolerance"
  then show "updateAdvancedTimePlaneIfNecessary ops s tolerance tangentPoint =
          (if almostSingular (determinant (accumulateSums (acc_rotatedUVW acc tangentPoint)))
           then Some (Inr (tolerance, s))
           else if planeDeviation (fitCoeffA (accumulateSums (acc_rotatedUVW acc tangentPoint)))
                     (fitCoeffB (accumulateSums (acc_rotatedUVW acc tangentPoint)))
                     (acc_rotatedUVW acc tangentPoint) > tolerance
           then Some (Inr (planeDeviation (fitCoeffA (accumulateSums (acc_rotatedUVW acc tangentPoint)))
                             (fitCoeffB (accumulateSums (acc_rotatedUVW acc tangentPoint)))
                             (acc_rotatedUVW acc tangentPoint), s))
           else predictiveSearch ops acc s tolerance tangentPoint (acc_rotatedUVW acc tangentPoint)
                  (fitCoeffA (accumulateSums (acc_rotatedUVW acc tangentPoint)))
                  (fitCoeffB (accumulateSums (acc_rotatedUVW acc tangentPoint)))
                  (planeDeviation (fitCoeffA (accumulateSums (acc_rotatedUVW acc tangentPoint)))
                     (fitCoeffB (accumulateSums (acc_rotatedUVW acc tangentPoint)))
                     (acc_rotatedUVW acc tangentPoint)))"
    by (auto simp: updateAdvancedTimePlaneIfNecessary_def Let_def)
next
  assume "roAccessor s = Some acc \<and> maxWDeviation s (acc_rotatedUVW acc tangentPoint) < tolerance"
  then show "updateAdvancedTimePlaneIfNecessary ops s tolerance tangentPoint
          = Some (Inr (maxWDeviation s (acc_rotatedUVW acc tangentPoint), s))"
    by (simp add: updateAdvancedTimePlaneIfNecessary_def Let_def)
next
  assume a: "roAccessor s = Some acc \<and> itsUVWChangeMonitor s \<noteq> changeMonitor s
        \<and> 1 \<le> length (acc_frequency acc) \<and> 0 < maxFreq (acc_frequency acc)
        \<and> itsCheckResidual s
        \<and> updatePlane ops (s\<lparr>itsLastTangentPoint := tangentPoint\<rparr>) (acc_rotatedUVW acc tangentPoint)
             (tolInMetres (itsWTolerance s) (acc_frequency acc)) tangentPoint
           = Some (Inr (tolInMetres (itsWTolerance s) (acc_frequency acc), s'))"
  then have "itsCheckResidual s'"
    using planeOnly_fields(1) [OF updatePlane_planeOnly, of ops "s\<lparr>itsLastTangentPoint := tangentPoint\<rparr>"
        "acc_rotatedUVW acc tangentPoint" "tolInMetres (itsWTolerance s) (acc_frequency acc)" tangentPoint
        "tolInMetres (itsWTolerance s) (acc_frequency acc)" s']
    by simp
  with a show "rotatedUVW ops s tangentPoint = Some (Inl ToleranceExceeded)"
    by (simp add: rotatedUVW_def Let_def)
qed

theorem comparisons_at_tolerance_witness:
  "updatePlaneIfNecessary (freshAdapter 1 True (staticAccessor edgeChunk)) edgeChunk 1
     = (1, (freshAdapter 1 True (staticAccessor edgeChunk))
             \<lparr>itsCoeffA := 0, itsCoeffB := 0, itsPlaneChangeMonitor := 1\<rparr>)
   \<and> updatePlaneIfNecessary (freshAdapter 1 True (staticAccessor edgeChunk)) edgeChunk 2
     = (1, freshAdapter 1 True (staticAccessor edgeChunk))
   \<and> updateAdvancedTimePlaneIfNecessary equatorOps
        (predictiveAdapter 1 True (staticAccessor edgeChunk)) 1 0
     = Some (Inr (1, (predictiveAdapter 1 True (staticAccessor edgeChunk))
                       \<lparr>itsCoeffA := 0, itsCoeffB := 0, itsPlaneChangeMonitor := 1\<rparr>))
   \<and> updateAdvancedTimePlaneIfNecessary equatorOps
        (predictiveAdapter 1 True (staticAccessor edgeChunk)) 2 0
     = Some (Inr (1, predictiveAdapter 1 True (staticAccessor edgeChunk)))
   \<and> rotatedUVW equatorOps (freshAdapter 1 True (staticAccessor edgeChunk)) 0
     = Some (Inl ToleranceExceeded)"
proof -
  let ?acc = "staticAccessor edgeChunk"
  let ?r = "freshAdapter 1 True ?acc"
  let ?p = "predictiveAdapter 1 True ?acc"
  have rot: "acc_rotatedUVW ?acc d = edgeChunk" for d
    by (simp add: adapter_eval)
  have len: "2 \<le> length edgeChunk"
    by (simp add: edgeChunk_def)
  have dev: "maxWDeviation ?r edgeChunk = 1" "maxWDeviation ?p edgeChunk = 1"
    by (simp_all add: edgeChunk_def fit_eval adapter_eval)
  have acc: "roAccessor ?r = Some ?acc" "roAccessor ?p = Some ?acc"
    by (simp_all add: adapter_eval)
  have mon: "itsUVWChangeMonitor ?r \<noteq> changeMonitor ?r"
    by (simp add: adapter_eval)
  have freq: "1 \<le> length (acc_frequency ?acc)" "0 < maxFreq (acc_frequency ?acc)"
    by (simp_all add: adapter_eval maxFreq_def)
  have chk: "itsCheckResidual ?r"
    by (simp add: adapter_eval)
  have tol: "tolInMetres (itsWTolerance ?r) (acc_frequency ?acc) = 1"
    by (simp add: adapter_eval tolInMetres_def maxFreq_def C_c_def)
  have fit: "\<not> almostSingular (determinant (accumulateSums edgeChunk))"
    "fitCoeffA (accumulateSums edgeChunk) = 0" "fitCoeffB (accumulateSums edgeChunk) = 0"
    "planeDeviation 0 0 edgeChunk = 1"
    by (simp_all add: edgeChunk_def fit_eval)
  have upd: "updatePlane equatorOps (?r\<lparr>itsLastTangentPoint := 0\<rparr>) (acc_rotatedUVW ?acc 0)
      (tolInMetres (itsWTolerance ?r) (acc_frequency ?acc)) 0
      = Some (Inr (tolInMetres (itsWTolerance ?r) (acc_frequency ?acc),
                   ?r\<lparr>itsCoeffA := 0, itsCoeffB := 0, itsPlaneChangeMonitor := 1\<rparr>))"
    unfolding tol rot by (simp add: updatePlane_def edgeChunk_def fit_eval adapter_eval)
  have search: "predictiveSearch equatorOps ?acc ?p 1 0 edgeChunk 0 0 1
      = Some (Inr (1, ?p\<lparr>itsCoeffA := 0, itsCoeffB := 0, itsPlaneChangeMonitor := 1\<rparr>))"
    by (simp add: predictiveSearch_def advanceLoop.simps pullBackLoop.simps
        edgeChunk_def fit_eval adapter_eval)
  have commit: "commitFit (accumulateSums edgeChunk) ?r
      = ?r\<lparr>itsCoeffA := 0, itsCoeffB := 0, itsPlaneChangeMonitor := 1\<rparr>"
    by (simp add: commitFit_def notifyPlaneChange_def fit adapter_eval)
  have dev': "maxWDeviation (?r\<lparr>itsCoeffA := 0, itsCoeffB := 0, itsPlaneChangeMonitor := 1\<rparr>) edgeChunk = 1"
    by (simp add: maxWDeviation_def coeffA_def coeffB_def fit)
  note at_tol_reactive = comparisons_at_tolerance [of edgeChunk ?r 1 ?acc 0 equatorOps
      "?r\<lparr>itsCoeffA := 0, itsCoeffB := 0, itsPlaneChangeMonitor := 1\<rparr>"]
  note below_reactive = comparisons_at_tolerance [of edgeChunk ?r 2 ?acc 0 equatorOps ?r]
  note at_tol_predictive = comparisons_at_tolerance [of edgeChunk ?p 1 ?acc 0 equatorOps ?p]
  note below_predictive = comparisons_at_tolerance [of edgeChunk ?p 2 ?acc 0 equatorOps ?p]
  from at_tol_reactive len dev(1)
  have "updatePlaneIfNecessary ?r edgeChunk 1 =
      (if almostSingular (determinant (accumulateSums edgeChunk)) then (1, ?r)
       else (maxWDeviation (commitFit (accumulateSums edgeChunk) ?r) edgeChunk,
             commitFit (accumulateSums edgeChunk) ?r))"
    by blast
  then have c1: "updatePlaneIfNecessary ?r edgeChunk 1
      = (1, ?r\<lparr>itsCoeffA := 0, itsCoeffB := 0, itsPlaneChangeMonitor := 1\<rparr>)"
    by (simp only: commit dev' fit(1) if_False)
  from below_reactive dev(1)
  have c2: "updatePlaneIfNecessary ?r edgeChunk 2 = (1, ?r)"
    by simp
  from at_tol_predictive acc(2) dev(2)
  have "updateAdvancedTimePlaneIfNecessary equatorOps ?p 1 0 =
      (if almostSingular (determinant (accumulateSums edgeChunk)) then Some (Inr (1, ?p))
       else if planeDeviation 0 0 edgeChunk > 1 then Some (Inr (planeDeviation 0 0 edgeChunk, ?p))
       else predictiveSearch equatorOps ?acc ?p 1 0 edgeChunk 0 0 (planeDeviation 0 0 edgeChunk))"
    by (simp add: rot fit(2,3))
  then have c3: "updateAdvancedTimePlaneIfNecessary equatorOps ?p 1 0
      = Some (Inr (1, ?p\<lparr>itsCoeffA := 0, itsCoeffB := 0, itsPlaneChangeMonitor := 1\<rparr>))"
    by (simp only: fit search if_False less_irrefl)
  from below_predictive acc(2) dev(2)
  have c4: "updateAdvancedTimePlaneIfNecessary equatorOps ?p 2 0 = Some (Inr (1, ?p))"
    by (simp add: rot)
  from at_tol_reactive acc(1) mon freq chk upd
  have c5: "rotatedUVW equatorOps ?r 0 = Some (Inl ToleranceExceeded)"
    by blast
  from c1 c2 c3 c4 c5 show ?thesis
    by blast
qed

text \<open>
  C10 as stated fails: not every comparison with the tolerance treats equality as
  exceeding it. The temporary fit of \<open>edgeChunk\<close> deviates by exactly the tolerance of one
  metre; \<^verbatim>\<open>AdvancedDeviation > tolerance\<close> does not report it as a violation and
  \<^verbatim>\<open>on_exit_deviation > tolerance\<close> ends the pull-back loop on it, so the function goes on
  to commit twice instead of returning with the object unchanged.
\<close>

theorem temporary_fit_at_tolerance_accepted:
  "planeDeviation (fitCoeffA (accumulateSums edgeChunk)) (fitCoeffB (accumulateSums edgeChunk)) edgeChunk = 1
   \<and> updateAdvancedTimePlaneIfNecessary equatorOps
        ((predictiveAdapter 1 False (staticAccessor edgeChunk))\<lparr>itsCoeffA := 1\<rparr>) 1 0
      = Some (Inr (1, (predictiveAdapter 1 False (staticAccessor edgeChunk))
                        \<lparr>itsCoeffA := 0, itsCoeffB := 0, itsPlaneChangeMonitor := 2\<rparr>))"
  by (simp add: predictive_eval fit_eval adapter_eval edgeChunk_def)


section \<open>Further properties\<close>

text \<open>
  X1. Repeated calls when the first call leaves a deviation below the tolerance. Two
  consecutive calls with the same tangent point, the first of which recomputes and
  returns: if the deviation of the chunk from the plane left committed is below the
  tolerance in metres, the second call returns the same rows and leaves the object, and
  with it the coefficients and the plane monitor, as the first call left it.
\<close>

theorem rotatedUVW_repeat_within_tolerance:
  assumes "rotatedUVW ops s tangentPoint = Some (Inr (out, s1))"
    and "roAccessor s = Some acc"
    and "itsUVWChangeMonitor s \<noteq> changeMonitor s"
    and "maxWDeviation s1 (acc_rotatedUVW acc tangentPoint)
           < tolInMetres (itsWTolerance s) (acc_frequency acc)"
  shows "rotatedUVW ops s1 tangentPoint = Some (Inr (out, s1))"
  using assms by (rule rotatedUVW_repeat)

theorem rotatedUVW_repeat_within_tolerance_witness:
  "rotatedUVW equatorOps (freshAdapter 1 False (staticAccessor flatChunk)) 0
     = Some (Inr ([(1, 0, 0), (0, 1, 0)], boundAdapter\<lparr>itsCheckResidual := False\<rparr>))
   \<and> rotatedUVW equatorOps (boundAdapter\<lparr>itsCheckResidual := False\<rparr>) 0
     = Some (Inr ([(1, 0, 0), (0, 1, 0)], boundAdapter\<lparr>itsCheckResidual := False\<rparr>))"
proof -
  let ?s = "freshAdapter 1 False (staticAccessor flatChunk)"
  let ?s1 = "boundAdapter\<lparr>itsCheckResidual := False\<rparr>"
  have h1: "rotatedUVW equatorOps ?s 0 = Some (Inr ([(1, 0, 0), (0, 1, 0)], ?s1))"
    by (simp add: boundAdapter_def rotated_eval fit_eval adapter_eval flatChunk_def)
  have h2: "roAccessor ?s = Some (staticAccessor flatChunk)"
    by (simp add: adapter_eval)
  have h3: "itsUVWChangeMonitor ?s \<noteq> changeMonitor ?s"
    by (simp add: adapter_eval)
  have h4: "maxWDeviation ?s1 (acc_rotatedUVW (staticAccessor flatChunk) 0)
      < tolInMetres (itsWTolerance ?s) (acc_frequency (staticAccessor flatChunk))"
    by (simp add: boundAdapter_def rotated_eval fit_eval adapter_eval flatChunk_def)
  from rotatedUVW_repeat_within_tolerance [OF h1 h2 h3 h4] h1 show ?thesis
    by simp
qed

text \<open>
  X2. The same with \<^verbatim>\<open>checkResidual\<close> enabled: a first call that returned has passed the
  residual check, so the second call changes nothing.
\<close>

theorem rotatedUVW_repeat_checked:
  assumes first: "rotatedUVW ops s tangentPoint = Some (Inr (out, s1))"
    and acc: "roAccessor s = Some acc"
    and changed: "itsUVWChangeMonitor s \<noteq> changeMonitor s"
    and checked: "itsCheckResidual s"
  shows "rotatedUVW ops s1 tangentPoint = Some (Inr (out, s1))"
proof -
  let ?uvw = "acc_rotatedUVW acc tangentPoint"
  let ?tol = "tolInMetres (itsWTolerance s) (acc_frequency acc)"
  from first acc changed obtain d s2 where
    u: "updatePlane ops (s\<lparr>itsLastTangentPoint := tangentPoint\<rparr>) ?uvw ?tol tangentPoint
        = Some (Inr (d, s2))"
    and pass: "\<not> (itsCheckResidual s2 \<and> \<not> d < ?tol)"
    and s1: "s1 = s2\<lparr>itsRotatedUVW := map (subtractPlane (coeffA s2) (coeffB s2)) ?uvw\<rparr>"
    by (auto simp: rotatedUVW_def Let_def split: option.splits sum.splits if_splits)
  have "itsCheckResidual s2"
    using planeOnly_fields(1) [OF updatePlane_planeOnly [OF u]] checked by simp
  with pass have "d < ?tol" by simp
  then have "maxWDeviation s2 ?uvw < ?tol"
    using updatePlane_deviation [OF u] acc by simp
  then have "maxWDeviation s1 ?uvw < ?tol"
    by (simp add: s1 maxWDeviation_def coeffA_def coeffB_def)
  from rotatedUVW_repeat [OF first acc changed this] show ?thesis .
qed

theorem rotatedUVW_repeat_checked_witness:
  "rotatedUVW equatorOps (freshAdapter 1 True (staticAccessor flatChunk)) 0
     = Some (Inr ([(1, 0, 0), (0, 1, 0)], boundAdapter))
   \<and> rotatedUVW equatorOps boundAdapter 0 = Some (Inr ([(1, 0, 0), (0, 1, 0)], boundAdapter))"
proof -
  let ?s = "freshAdapter 1 True (staticAccessor flatChunk)"
  have h1: "rotatedUVW equatorOps ?s 0 = Some (Inr ([(1, 0, 0), (0, 1, 0)], boundAdapter))"
    by (simp add: boundAdapter_def rotated_eval fit_eval adapter_eval flatChunk_def)
  have h2: "roAccessor ?s = Some (staticAccessor flatChunk)"
    by (simp add: adapter_eval)
  have h3: "itsUVWChangeMonitor ?s \<noteq> changeMonitor ?s"
    by (simp add: adapter_eval)
  have h4: "itsCheckResidual ?s"
    by (simp add: adapter_eval)
  from rotatedUVW_repeat_checked [OF h1 h2 h3 h4] h1 show ?thesis
    by simp
qed

text \<open>
  X3. \<^verbatim>\<open>maxWDeviation\<close> is the maximum over the rows of \<open>|A u + B v - w|\<close> under the
  committed coefficients, and \<open>0\<close> for a chunk without rows.
\<close>

theorem maxWDeviation_is_max:
  "maxWDeviation s uvw = Max (insert 0 ((\<lambda>(u, v, w). \<bar>coeffA s * u + coeffB s * v - w\<bar>) ` set uvw))"
  by (simp add: maxWDeviation_def planeDeviation_def fold_deviationStep_Max)

text \<open>
  X4. A perfectly flat array (every \<open>w = 0\<close>) seen by an adapter whose coefficients are
  zero, as after construction: for every tolerance the reactive policy returns a zero
  deviation and leaves both coefficients at zero, whether or not it fits.
\<close>

theorem flat_array_zero_plane:
  assumes "list_all (\<lambda>(u, v, w). w = 0) uvw"
    and "itsCoeffA s = 0" and "itsCoeffB s = 0"
  shows "fst (updatePlaneIfNecessary s uvw tolerance) = 0
         \<and> itsCoeffA (snd (updatePlaneIfNecessary s uvw tolerance)) = 0
         \<and> itsCoeffB (snd (updatePlaneIfNecessary s uvw tolerance)) = 0"
proof -
  let ?m = "accumulateSums uvw"
  note flat = list_all_flat_on_plane [OF assms(1)]
  have dev: "maxWDeviation s uvw = 0"
    using planeDeviation_on_plane [OF flat] assms(2,3)
    by (simp add: maxWDeviation_def coeffA_def coeffB_def)
  show ?thesis
  proof (cases "length uvw < 2 \<or> maxWDeviation s uvw < tolerance \<or> almostSingular (determinant ?m)")
    case True
    then have "updatePlaneIfNecessary s uvw tolerance = (maxWDeviation s uvw, s)"
      by (auto simp: updatePlaneIfNecessary_def Let_def)
    with dev assms(2,3) show ?thesis by simp
  next
    case False
    then have ns: "\<not> almostSingular (determinant ?m)" by simp
    have A: "fitCoeffA ?m = 0" and B: "fitCoeffB ?m = 0"
      using fit_on_plane [OF flat not_almostSingular_nonzero [OF ns]] by simp_all
    have co: "itsCoeffA (commitFit ?m s) = 0" "itsCoeffB (commitFit ?m s) = 0"
      by (simp_all add: commitFit_def notifyPlaneChange_def A B)
    have "maxWDeviation (commitFit ?m s) uvw = 0"
      using planeDeviation_on_plane [OF flat] by (simp add: maxWDeviation_def coeffA_def coeffB_def co)
    moreover have "updatePlaneIfNecessary s uvw tolerance
        = (maxWDeviation (commitFit ?m s) uvw, commitFit ?m s)"
      using False by (auto simp: updatePlaneIfNecessary_def Let_def)
    ultimately show ?thesis
      by (simp add: co)
  qed
qed

theorem flat_array_zero_plane_witness:
  "fst (updatePlaneIfNecessary (freshAdapter 1 True (staticAccessor [(1, 0, 0), (0, 1, 0)]))
          [(1, 0, 0), (0, 1, 0)] 0) = 0
   \<and> itsCoeffA (snd (updatePlaneIfNecessary (freshAdapter 1 True (staticAccessor [(1, 0, 0), (0, 1, 0)]))
          [(1, 0, 0), (0, 1, 0)] 0)) = 0
   \<and> itsCoeffB (snd (updatePlaneIfNecessary (freshAdapter 1 True (staticAccessor [(1, 0, 0), (0, 1, 0)]))
          [(1, 0, 0), (0, 1, 0)] 0)) = 0"
proof -
  let ?s = "freshAdapter 1 True (staticAccessor [(1, 0, 0), (0, 1, 0)])"
  have h1: "list_all (\<lambda>(u, v, w). w = 0) [(1, 0, 0), (0, 1, 0 :: real) :: uvw]"
    by simp
  have h2: "itsCoeffA ?s = 0" and h3: "itsCoeffB ?s = 0"
    by (simp_all add: adapter_eval)
  show ?thesis
    by (rule flat_array_zero_plane [OF h1 h2 h3])
qed

text \<open>
  X5. The plane update of either policy changes the object only together with a
  notification of the plane monitor: when it returns, the object is unchanged or the
  plane monitor has advanced.
\<close>

theorem plane_changes_are_notified:
  assumes "updatePlane ops s uvw tolerance tangentPoint = Some (Inr (d, s'))"
  shows "s' = s \<or> itsPlaneChangeMonitor s < itsPlaneChangeMonitor s'"
proof (cases "itsPredictWPlane s")
  case False
  with assms show ?thesis
    by (auto simp: updatePlane_def updatePlaneIfNecessary_def Let_def commitFit_def notifyPlaneChange_def
        split: if_splits)
next
  case True
  show ?thesis
  proof (cases "roAccessor s")
    case None
    with True assms show ?thesis
      by (simp add: updatePlane_def updateAdvancedTimePlaneIfNecessary_def)
  next
    case (Some acc)
    have "planeMonitorAdvanced s s'"
      if "predictiveSearch ops acc s tolerance tangentPoint u a b d0 = Some (Inr (d, s'))" for u a b d0
    proof -
      from that obtain ntp y where
        pb: "pullBackLoop ops acc tangentPoint (length u) tolerance (itsPredictTimeInterval s) s ntp = Some y"
        and y: "(case y of Inl e \<Rightarrow> Some (Inl e)
             | Inr (Some on_exit_deviation, s') \<Rightarrow> Some (Inr (on_exit_deviation, s'))
             | Inr (None, s') \<Rightarrow> Some (Inr (maxWDeviation s' u, s'))) = Some (Inr (d, s'))"
        by (auto simp: predictiveSearch_def split: option.splits sum.splits)
      from pullBackLoop_planeMonitor [OF pb] y show ?thesis
        by (auto split: sum.splits option.splits prod.splits)
    qed
    with True Some assms show ?thesis
      by (auto simp: updatePlane_def updateAdvancedTimePlaneIfNecessary_def Let_def planeMonitorAdvanced_def
          split: if_splits)
  qed
qed

theorem plane_changes_are_notified_witness:
  "updatePlane equatorOps (freshAdapter 1 True (staticAccessor flatChunk)) flatChunk 1 0
     = Some (Inr (0, (freshAdapter 1 True (staticAccessor flatChunk))
                       \<lparr>itsCoeffA := 2, itsCoeffB := 3, itsPlaneChangeMonitor := 1\<rparr>))
   \<and> itsPlaneChangeMonitor (freshAdapter 1 True (staticAccessor flatChunk)) < 1"
proof -
  let ?s = "freshAdapter 1 True (staticAccessor flatChunk)"
  let ?s' = "?s\<lparr>itsCoeffA := 2, itsCoeffB := 3, itsPlaneChangeMonitor := 1\<rparr>"
  have h: "updatePlane equatorOps ?s flatChunk 1 0 = Some (Inr (0, ?s'))"
    by (simp add: updatePlane_def fit_eval adapter_eval flatChunk_def)
  have ne: "?s' \<noteq> ?s"
  proof
    assume "?s' = ?s"
    then have "itsCoeffA ?s' = itsCoeffA ?s" by simp
    then show False by (simp add: adapter_eval)
  qed
  from plane_changes_are_notified [OF h] ne h show ?thesis
    by simp
qed

text \<open>
  X6. For a non-empty frequency list that is sorted, ascending or descending, the tolerance
  in metres is the tolerance in wavelengths times the speed of light divided by the
  maximum frequency over all channels.
\<close>

theorem tolInMetres_sorted:
  assumes "freq \<noteq> []" and "sorted freq \<or> sorted (rev freq)"
  shows "tolInMetres wTolerance freq = wTolerance * C_c / Max (set freq)"
proof -
  have m: "maxFreq freq = max (hd freq) (last freq)"
    by (rule maxFreq_first_last [OF assms(1)])
  have "max (hd freq) (last freq) = Max (set freq)" if "sorted freq"
    using Max_sorted_last [OF that assms(1)] sorted_hd_le_last [OF that assms(1)]
    by (simp add: max_def)
  moreover have "max (hd freq) (last freq) = Max (set freq)" if "sorted (rev freq)"
    using Max_sorted_last [OF that] sorted_hd_le_last [OF that] assms(1)
    by (simp add: max_def last_rev hd_rev)
  ultimately show ?thesis using assms(2) by (auto simp: tolInMetres_def m)
qed

theorem tolInMetres_sorted_witness:
  "tolInMetres 1 [3000000000, 2000000000, 1000000000]
     = 1 * C_c / Max (set [3000000000, 2000000000, 1000000000])
   \<and> tolInMetres 1 [3000000000, 2000000000, 1000000000] = C_c / 3000000000"
proof -
  have h: "[3000000000, 2000000000, 1000000000 :: real] \<noteq> []"
    by simp
  have s: "sorted [3000000000, 2000000000, 1000000000 :: real]
      \<or> sorted (rev [3000000000, 2000000000, 1000000000 :: real])"
    by simp
  show ?thesis
    using tolInMetres_sorted [OF h s, of 1] by simp
qed

text \<open>
  X7. The advance loop of the predictive policy has no bound: when the temporary plane
  stays within tolerance at every tangent point (for instance because the rows do not
  depend on the tangent point), the loop never returns.
\<close>

theorem advance_search_unbounded:
  assumes "AdvancedDeviation < tolerance"
    and "\<And>p. n \<le> length (acc_rotatedUVW acc p)"
    and "\<And>p. planeDeviation tmpCoeffA tmpCoeffB (take n (acc_rotatedUVW acc p)) < tolerance"
  shows "advanceLoop ops acc n tmpCoeffA tmpCoeffB tolerance TimeShift newTangentPoint AdvancedDeviation
         = None"
  using assms by (rule advanceLoop_never_returns)

theorem advance_search_unbounded_witness:
  "advanceLoop equatorOps (staticAccessor flatChunk) 2 2 3 1 1 0 0 = None"
proof -
  have h1: "(0::real) < 1"
    by simp
  have h2: "2 \<le> length (acc_rotatedUVW (staticAccessor flatChunk) p)" for p
    by (simp add: adapter_eval flatChunk_def)
  have h3: "planeDeviation 2 3 (take 2 (acc_rotatedUVW (staticAccessor flatChunk) p)) < 1" for p
    by (simp add: adapter_eval flatChunk_def fit_eval)
  show ?thesis
    by (rule advance_search_unbounded [OF h1 h2 h3])
qed

end
